theory Spec2Isabelle
  imports Main
begin

section \<open>Go integers\<close>

text \<open>
  Go's \<open>int\<close>, \<open>int64\<close> and \<open>time.Duration\<close> are 64-bit two's complement
  integers. They are modelled as \<open>int\<close> with the wrap-around written out after every
  addition, subtraction and multiplication; Go's \<open>/\<close> truncates towards zero.
\<close>

definition wrap64 :: "int \<Rightarrow> int" where
  "wrap64 x = (x + 2 ^ 63) mod 2 ^ 64 - 2 ^ 63"

definition go_quot :: "int \<Rightarrow> int \<Rightarrow> int" where
  "go_quot a b = sgn a * sgn b * (\<bar>a\<bar> div \<bar>b\<bar>)"

section \<open>Conversion statistics\<close>

subsection \<open>AudioConverter\<close>

record AudioConverterStats =
  ac_TotalConversions :: int
  ac_FailedConversions :: int
  ac_AvgConversionTime :: int

text \<open>\<open>AudioConverter.recordSuccess(duration)\<close>.\<close>

definition ac_recordSuccess :: "int \<Rightarrow> AudioConverterStats \<Rightarrow> AudioConverterStats" where
  "ac_recordSuccess duration st =
     (let st1 = st\<lparr>ac_TotalConversions := wrap64 (ac_TotalConversions st + 1)\<rparr>
      in if ac_AvgConversionTime st1 = 0
         then st1\<lparr>ac_AvgConversionTime := duration\<rparr>
         else st1\<lparr>ac_AvgConversionTime :=
                go_quot (wrap64 (wrap64 (ac_AvgConversionTime st1 * 9) + duration)) 10\<rparr>)"

text \<open>\<open>AudioConverter.recordFailure()\<close>.\<close>

definition ac_recordFailure :: "AudioConverterStats \<Rightarrow> AudioConverterStats" where
  "ac_recordFailure st =
     (let st1 = st\<lparr>ac_TotalConversions := wrap64 (ac_TotalConversions st + 1)\<rparr>
      in st1\<lparr>ac_FailedConversions := wrap64 (ac_FailedConversions st1 + 1)\<rparr>)"

subsection \<open>ImageConverter\<close>

record ImageConverterStats =
  ic_TotalConversions :: int
  ic_FailedConversions :: int
  ic_AvgConversionTime :: int
  ic_VipsConversions :: int
  ic_FFmpegConversions :: int

text \<open>\<open>ImageConverter.updateAvgTime(duration)\<close>.\<close>

definition ic_updateAvgTime :: "int \<Rightarrow> ImageConverterStats \<Rightarrow> ImageConverterStats" where
  "ic_updateAvgTime duration st =
     (if ic_AvgConversionTime st = 0
      then st\<lparr>ic_AvgConversionTime := duration\<rparr>
      else st\<lparr>ic_AvgConversionTime :=
             go_quot (wrap64 (wrap64 (ic_AvgConversionTime st * 9) + duration)) 10\<rparr>)"

definition ic_recordVipsSuccess :: "int \<Rightarrow> ImageConverterStats \<Rightarrow> ImageConverterStats" where
  "ic_recordVipsSuccess duration st =
     (let st1 = st\<lparr>ic_TotalConversions := wrap64 (ic_TotalConversions st + 1)\<rparr>;
          st2 = st1\<lparr>ic_VipsConversions := wrap64 (ic_VipsConversions st1 + 1)\<rparr>
      in ic_updateAvgTime duration st2)"

definition ic_recordFFmpegSuccess :: "int \<Rightarrow> ImageConverterStats \<Rightarrow> ImageConverterStats" where
  "ic_recordFFmpegSuccess duration st =
     (let st1 = st\<lparr>ic_TotalConversions := wrap64 (ic_TotalConversions st + 1)\<rparr>;
          st2 = st1\<lparr>ic_FFmpegConversions := wrap64 (ic_FFmpegConversions st1 + 1)\<rparr>
      in ic_updateAvgTime duration st2)"

definition ic_recordFailure :: "ImageConverterStats \<Rightarrow> ImageConverterStats" where
  "ic_recordFailure st =
     (let st1 = st\<lparr>ic_TotalConversions := wrap64 (ic_TotalConversions st + 1)\<rparr>
      in st1\<lparr>ic_FailedConversions := wrap64 (ic_FailedConversions st1 + 1)\<rparr>)"

subsection \<open>Downloader\<close>

record DownloaderStats =
  dl_TotalDownloads :: int
  dl_FailedDownloads :: int
  dl_TotalBytes :: int
  dl_AvgDownloadTime :: int

text \<open>\<open>Downloader.recordSuccess(bytes, duration)\<close> and \<open>Downloader.recordFailure()\<close>.\<close>

definition dl_recordSuccess :: "int \<Rightarrow> int \<Rightarrow> DownloaderStats \<Rightarrow> DownloaderStats" where
  "dl_recordSuccess bytes duration st =
     (let st1 = st\<lparr>dl_TotalDownloads := wrap64 (dl_TotalDownloads st + 1)\<rparr>;
          st2 = st1\<lparr>dl_TotalBytes := wrap64 (dl_TotalBytes st1 + bytes)\<rparr>
      in if dl_AvgDownloadTime st2 = 0
         then st2\<lparr>dl_AvgDownloadTime := duration\<rparr>
         else st2\<lparr>dl_AvgDownloadTime :=
                go_quot (wrap64 (wrap64 (dl_AvgDownloadTime st2 * 9) + duration)) 10\<rparr>)"

definition dl_recordFailure :: "DownloaderStats \<Rightarrow> DownloaderStats" where
  "dl_recordFailure st =
     (let st1 = st\<lparr>dl_TotalDownloads := wrap64 (dl_TotalDownloads st + 1)\<rparr>
      in st1\<lparr>dl_FailedDownloads := wrap64 (dl_FailedDownloads st1 + 1)\<rparr>)"

subsection \<open>S3Service\<close>

text \<open>
  \<open>S3Stats\<close>; \<open>LastUpload\<close> is a time stamp (nanoseconds on the caller's clock).
\<close>

record S3Stats =
  s3_TotalUploads :: int
  s3_SuccessfulUploads :: int
  s3_FailedUploads :: int
  s3_TotalBytes :: int
  s3_AverageUploadTime :: int
  s3_LastUpload :: int

text \<open>
  \<open>S3Service.updateStats(startTime, bytes, success)\<close>. \<open>enableMetrics\<close> is
  \<open>s.config.EnableMetrics\<close>, \<open>now\<close> the value of \<open>time.Now()\<close> and \<open>uploadTime\<close>
  the value of \<open>time.Since(startTime)\<close>.
\<close>

definition s3_updateStats ::
  "bool \<Rightarrow> int \<Rightarrow> int \<Rightarrow> int \<Rightarrow> bool \<Rightarrow> S3Stats \<Rightarrow> S3Stats" where
  "s3_updateStats enableMetrics now uploadTime bytes success st =
     (if \<not> enableMetrics then st
      else
        let st1 = st\<lparr>s3_TotalUploads := wrap64 (s3_TotalUploads st + 1)\<rparr>;
            st2 = st1\<lparr>s3_LastUpload := now\<rparr>
        in if success
           then
             let st3 = st2\<lparr>s3_SuccessfulUploads := wrap64 (s3_SuccessfulUploads st2 + 1)\<rparr>;
                 st4 = st3\<lparr>s3_TotalBytes := wrap64 (s3_TotalBytes st3 + bytes)\<rparr>
             in if s3_AverageUploadTime st4 = 0
                then st4\<lparr>s3_AverageUploadTime := uploadTime\<rparr>
                else st4\<lparr>s3_AverageUploadTime :=
                       go_quot (wrap64 (s3_AverageUploadTime st4 + uploadTime)) 2\<rparr>
           else st2\<lparr>s3_FailedUploads := wrap64 (s3_FailedUploads st2 + 1)\<rparr>)"

subsection \<open>The rolling average of the specification\<close>

text \<open>
  The specification's low-pass filter over the mathematical integers:
  \<open>new_avg = (old_avg * 9 + sample) / 10\<close>, seeded with the sample when the previous
  average is zero.
\<close>

definition spec_rolling_avg :: "int \<Rightarrow> int \<Rightarrow> int" where
  "spec_rolling_avg old_avg sample =
     (if old_avg = 0 then sample else (old_avg * 9 + sample) div 10)"

text \<open>
  The average that \<open>S3Service.updateStats\<close> keeps, over the mathematical integers: the
  mean of the previous average and the sample, seeded with the sample.
\<close>

definition halving_avg :: "int \<Rightarrow> int \<Rightarrow> int" where
  "halving_avg old_avg sample = (if old_avg = 0 then sample else (old_avg + sample) div 2)"

section \<open>Image quality on the transcoder path\<close>

text \<open>The defaulting of \<open>req.Quality\<close> at the head of \<open>ImageConverter.Convert\<close>.\<close>

definition effective_quality :: "int \<Rightarrow> int" where
  "effective_quality q = (if q \<le> 0 \<or> q > 100 then 95 else q)"

text \<open>The value \<open>ffmpegQuality\<close> computed by \<open>ImageConverter.convertWithFFmpeg\<close>.\<close>

definition ffmpegQuality :: "int \<Rightarrow> int" where
  "ffmpegQuality quality =
     (let q = wrap64 (31 - go_quot (wrap64 (quality * 29)) 100)
      in if q < 2 then 2 else q)"

text \<open>The specification's formula \<open>clamp(31 - q * 29 / 100, 2, 31)\<close>.\<close>

definition spec_clamp :: "int \<Rightarrow> int \<Rightarrow> int \<Rightarrow> int" where
  "spec_clamp x lo hi = max lo (min hi x)"

definition spec_ffmpeg_q :: "int \<Rightarrow> int" where
  "spec_ffmpeg_q q = spec_clamp (31 - q * 29 div 100) 2 31"

section \<open>Downloader\<close>

type_synonym bytes = "char list"

text \<open>
  A response body: the bytes still to be read and what a read returns once they are
  exhausted (\<open>io.EOF\<close> when \<open>berr\<close> is \<open>None\<close>, a transport error otherwise).
\<close>

record body =
  bdata :: bytes
  berr :: "string option"

datatype read_err = EOF | ReadErr string

text \<open>\<open>Body.Read(p)\<close> with \<open>len(p) = k\<close>: the bytes read, the error, the body afterwards.\<close>

definition body_Read :: "nat \<Rightarrow> body \<Rightarrow> (bytes \<times> read_err option) \<times> body" where
  "body_Read k b =
     (if k = 0 then (([], None), b)
      else if bdata b = []
      then (([], Some (case berr b of None \<Rightarrow> EOF | Some m \<Rightarrow> ReadErr m)), b)
      else ((take k (bdata b), None), b\<lparr>bdata := drop k (bdata b)\<rparr>))"

text \<open>\<open>io.LimitReader(r, n)\<close> and \<open>(*io.LimitedReader).Read\<close>.\<close>

record LimitedReader =
  lr_R :: body
  lr_N :: int

definition LimitReader :: "body \<Rightarrow> int \<Rightarrow> LimitedReader" where
  "LimitReader r n = \<lparr>lr_R = r, lr_N = n\<rparr>"

definition lr_Read :: "nat \<Rightarrow> LimitedReader \<Rightarrow> (bytes \<times> read_err option) \<times> LimitedReader" where
  "lr_Read k l =
     (if lr_N l \<le> 0 then (([], Some EOF), l)
      else
        let k' = (if int k > lr_N l then nat (lr_N l) else k);
            r = body_Read k' (lr_R l)
        in (fst r, \<lparr>lr_R = snd r, lr_N = lr_N l - int (length (fst (fst r)))\<rparr>))"

text \<open>
  The copy loop of \<open>io.CopyBuffer\<close>: read chunks of at most \<open>k\<close> bytes and append them
  to the destination until the source reports \<open>io.EOF\<close> (no error) or an error.
  \<open>Download\<close> enters the loop with \<open>k > 0\<close> only.
\<close>

function copy_loop ::
  "nat \<Rightarrow> LimitedReader \<Rightarrow> bytes \<Rightarrow> (bytes \<times> string option) \<times> LimitedReader" where
  "copy_loop k l acc =
     (if k = 0 then ((acc, None), l)
      else
        case lr_Read k l of
          ((bs, Some EOF), l') \<Rightarrow> ((acc @ bs, None), l')
        | ((bs, Some (ReadErr m)), l') \<Rightarrow> ((acc @ bs, Some m), l')
        | ((bs, None), l') \<Rightarrow> copy_loop k l' (acc @ bs))"
  by pat_completeness auto
termination
proof (relation "measure (\<lambda>(k, l, acc). length (bdata (lr_R l)))")
  show "wf (measure (\<lambda>(k, l, acc). length (bdata (lr_R l))))" by simp
next
  fix k :: nat and l :: LimitedReader and acc :: bytes
    and x :: "bytes \<times> read_err option" and l' :: LimitedReader
    and bs :: bytes and e :: "read_err option"
  assume k: "k \<noteq> 0" and rd: "(x, l') = lr_Read k l" and x: "(bs, e) = x" and e: "e = None"
  from rd x e have r: "lr_Read k l = ((bs, None), l')" by simp
  then have pos: "0 < lr_N l"
    by (auto simp: lr_Read_def split: if_splits)
  define k' where "k' = (if int k > lr_N l then nat (lr_N l) else k)"
  from k pos have k'pos: "k' \<noteq> 0" by (simp add: k'_def)
  from r pos have br: "body_Read k' (lr_R l) = ((bs, None), lr_R l')"
    by (auto simp: lr_Read_def Let_def k'_def prod_eq_iff split: if_splits)
  from br have "lr_R l' = snd (body_Read k' (lr_R l))" by simp
  moreover from br k'pos have ne: "bdata (lr_R l) \<noteq> []"
    by (auto simp: body_Read_def split: if_splits)
  ultimately have "bdata (lr_R l') = drop k' (bdata (lr_R l))"
    using k'pos by (simp add: body_Read_def)
  with k'pos ne show "((k, l', acc @ bs), (k, l, acc)) \<in> measure (\<lambda>(k, l, acc). length (bdata (lr_R l)))"
    by simp
qed

declare copy_loop.simps [simp del]

datatype dl_error =
    CreateRequest string      \<comment> \<open>\<open>"create request: %w"\<close>\<close>
  | HttpRequest string        \<comment> \<open>\<open>"http request: %w"\<close>\<close>
  | HttpStatus int            \<comment> \<open>\<open>"http status %d"\<close>\<close>
  | ContentTooLarge int int   \<comment> \<open>\<open>"content too large: %d bytes (max: %d)"\<close>\<close>
  | ReadResponse string       \<comment> \<open>\<open>"read response: %w"\<close>\<close>
  | ContentExceeds int        \<comment> \<open>\<open>"content exceeds maximum size of %d bytes"\<close>\<close>
  | CopyBufferPanics          \<comment> \<open>\<open>panic("empty buffer in CopyBuffer")\<close>, not an error value\<close>

text \<open>
  What \<open>http.NewRequestWithContext\<close> and \<open>httpClient.Do\<close> produce for a URL: a failure
  of either, or a response with status code, \<open>ContentLength\<close> and body.
\<close>

datatype fetch = NewRequestFails string | DoFails string | Response int int body

record Downloader =
  dl_maxSize :: int
  dl_stats :: DownloaderStats

text \<open>\<open>NewDownloader(bufferPool, maxSize)\<close>.\<close>

definition NewDownloader :: "int \<Rightarrow> Downloader" where
  "NewDownloader maxSize =
     \<lparr>dl_maxSize = (if maxSize \<le> 0 then 500 * 1024 * 1024 else maxSize),
      dl_stats = \<lparr>dl_TotalDownloads = 0, dl_FailedDownloads = 0, dl_TotalBytes = 0,
                  dl_AvgDownloadTime = 0\<rparr>\<rparr>"

definition dl_fail :: "dl_error \<Rightarrow> Downloader \<Rightarrow> (dl_error + bytes) \<times> Downloader" where
  "dl_fail e d = (Inl e, d\<lparr>dl_stats := dl_recordFailure (dl_stats d)\<rparr>)"

text \<open>
  \<open>Downloader.Download(ctx, url)\<close>. \<open>bufsz\<close> is the length of the buffer lent by the
  buffer pool (\<open>io.CopyBuffer\<close> panics on an empty one), \<open>elapsed\<close> the value of
  \<open>time.Since(start)\<close>, \<open>f\<close> what the HTTP client produces for the URL.
\<close>

definition Download :: "nat \<Rightarrow> int \<Rightarrow> fetch \<Rightarrow> Downloader \<Rightarrow> (dl_error + bytes) \<times> Downloader" where
  "Download bufsz elapsed f d =
     (case f of
        NewRequestFails m \<Rightarrow> dl_fail (CreateRequest m) d
      | DoFails m \<Rightarrow> dl_fail (HttpRequest m) d
      | Response status contentLength rbody \<Rightarrow>
          if status \<noteq> 200 then dl_fail (HttpStatus status) d
          else if contentLength > 0 \<and> contentLength > dl_maxSize d
          then dl_fail (ContentTooLarge contentLength (dl_maxSize d)) d
          else if bufsz = 0 then (Inl CopyBufferPanics, d)
          else
            (case copy_loop bufsz (LimitReader rbody (dl_maxSize d)) [] of
               ((result, Some m), l) \<Rightarrow> dl_fail (ReadResponse m) d
             | ((result, None), l) \<Rightarrow>
                 let written = int (length result)
                 in if written \<ge> dl_maxSize d \<and> fst (fst (body_Read 1 (lr_R l))) \<noteq> []
                    then dl_fail (ContentExceeds (dl_maxSize d)) d
                    else (Inr result,
                          d\<lparr>dl_stats := dl_recordSuccess written elapsed (dl_stats d)\<rparr>)))"

section \<open>Converters\<close>

datatype conv_error =
    DownloadFailed dl_error      \<comment> \<open>\<open>"download failed: %w"\<close>\<close>
  | Base64DecodeFailed           \<comment> \<open>\<open>"base64 decode failed: %w"\<close>\<close>
  | EmptyInputData               \<comment> \<open>\<open>"empty input data"\<close>\<close>
  | FileTooLarge nat             \<comment> \<open>\<open>"audio file too large: %d bytes"\<close>, \<open>"image file too large: %d bytes"\<close>\<close>
  | ConversionFailed string      \<comment> \<open>\<open>"conversion failed: %w"\<close>\<close>

subsection \<open>AudioConverter.Convert\<close>

record AudioRequest =
  ar_Data :: string
  ar_IsURL :: bool
  ar_InputType :: string

record AudioResponse =
  ars_Data :: string
  ars_Duration :: int
  ars_Size :: nat

text \<open>
  What the world outside the converter answers during one call: the downloader, the
  base64 codec of the standard library, the transcoder process, the prober, and the
  clock (\<open>time.Since(start)\<close>).
\<close>

record audio_env =
  ae_Download :: "string \<Rightarrow> dl_error + bytes"
  ae_DecodeString :: "string \<Rightarrow> bytes option"
  ae_EncodeToString :: "bytes \<Rightarrow> string"
  ae_convertToOpus :: "bytes \<Rightarrow> string + bytes"
  ae_getAudioDuration :: "bytes \<Rightarrow> int"
  ae_elapsed :: int

definition ac_fail ::
  "conv_error \<Rightarrow> AudioConverterStats \<Rightarrow> (conv_error + AudioResponse) \<times> AudioConverterStats" where
  "ac_fail e st = (Inl e, ac_recordFailure st)"

definition ac_convert_input ::
  "audio_env \<Rightarrow> bytes \<Rightarrow> AudioConverterStats \<Rightarrow>
   (conv_error + AudioResponse) \<times> AudioConverterStats" where
  "ac_convert_input env inputData st =
     (if length inputData = 0 then ac_fail EmptyInputData st
      else if length inputData > 100 * 1024 * 1024 then ac_fail (FileTooLarge (length inputData)) st
      else
        case ae_convertToOpus env inputData of
          Inl m \<Rightarrow> ac_fail (ConversionFailed m) st
        | Inr outputData \<Rightarrow>
            (Inr \<lparr>ars_Data = ''data:audio/ogg;codecs=opus;base64,'' @ ae_EncodeToString env outputData,
                  ars_Duration = ae_getAudioDuration env outputData,
                  ars_Size = length outputData\<rparr>,
             ac_recordSuccess (ae_elapsed env) st))"

definition ac_Convert ::
  "audio_env \<Rightarrow> AudioRequest \<Rightarrow> AudioConverterStats \<Rightarrow>
   (conv_error + AudioResponse) \<times> AudioConverterStats" where
  "ac_Convert env req st =
     (if ar_IsURL req
      then
        case ae_Download env (ar_Data req) of
          Inl e \<Rightarrow> ac_fail (DownloadFailed e) st
        | Inr inputData \<Rightarrow> ac_convert_input env inputData st
      else
        case ae_DecodeString env (ar_Data req) of
          None \<Rightarrow> ac_fail Base64DecodeFailed st
        | Some inputData \<Rightarrow> ac_convert_input env inputData st)"

subsection \<open>ImageConverter.Convert\<close>

record ImageRequest =
  ir_Data :: string
  ir_IsURL :: bool
  ir_MaxWidth :: int
  ir_MaxHeight :: int
  ir_Quality :: int

record ImageResponse =
  irs_Data :: string
  irs_Width :: int
  irs_Height :: int
  irs_Size :: nat

text \<open>
  The part of the transcoder command line that \<open>convertWithFFmpeg\<close> computes: the two
  bounds of the scale filter and the value of \<open>-q:v\<close>.
\<close>

record ffmpeg_cmd =
  fc_maxWidth :: int
  fc_maxHeight :: int
  fc_qv :: int

record image_env =
  ie_Download :: "string \<Rightarrow> dl_error + bytes"
  ie_DecodeString :: "string \<Rightarrow> bytes option"
  ie_EncodeToString :: "bytes \<Rightarrow> string"
  ie_vips :: "int \<Rightarrow> bytes \<Rightarrow> string + bytes"
  ie_ffmpeg :: "ffmpeg_cmd \<Rightarrow> bytes \<Rightarrow> string + bytes"
  ie_getImageDimensions :: "bytes \<Rightarrow> int \<times> int"
  ie_elapsed :: int

text \<open>\<open>ImageConverter.convertWithFFmpeg(ctx, input, maxWidth, maxHeight, quality)\<close>.\<close>

definition convertWithFFmpeg_cmd :: "int \<Rightarrow> int \<Rightarrow> int \<Rightarrow> ffmpeg_cmd" where
  "convertWithFFmpeg_cmd maxWidth maxHeight quality =
     \<lparr>fc_maxWidth = maxWidth, fc_maxHeight = maxHeight, fc_qv = ffmpegQuality quality\<rparr>"

definition convertWithFFmpeg :: "image_env \<Rightarrow> bytes \<Rightarrow> int \<Rightarrow> int \<Rightarrow> int \<Rightarrow> string + bytes" where
  "convertWithFFmpeg env input maxWidth maxHeight quality =
     ie_ffmpeg env (convertWithFFmpeg_cmd maxWidth maxHeight quality) input"

definition ic_fail ::
  "conv_error \<Rightarrow> ImageConverterStats \<Rightarrow> (conv_error + ImageResponse) \<times> ImageConverterStats" where
  "ic_fail e st = (Inl e, ic_recordFailure st)"

definition ic_respond :: "image_env \<Rightarrow> bytes \<Rightarrow> ImageResponse" where
  "ic_respond env outputData =
     \<lparr>irs_Data = ''data:image/jpeg;base64,'' @ ie_EncodeToString env outputData,
      irs_Width = fst (ie_getImageDimensions env outputData),
      irs_Height = snd (ie_getImageDimensions env outputData),
      irs_Size = length outputData\<rparr>"

definition ic_fallback ::
  "image_env \<Rightarrow> bytes \<Rightarrow> int \<Rightarrow> int \<Rightarrow> int \<Rightarrow> ImageConverterStats \<Rightarrow>
   (conv_error + ImageResponse) \<times> ImageConverterStats" where
  "ic_fallback env inputData maxWidth maxHeight quality st =
     (case convertWithFFmpeg env inputData maxWidth maxHeight quality of
        Inl m \<Rightarrow> ic_fail (ConversionFailed m) st
      | Inr outputData \<Rightarrow> (Inr (ic_respond env outputData), ic_recordFFmpegSuccess (ie_elapsed env) st))"

definition ic_convert_input ::
  "bool \<Rightarrow> image_env \<Rightarrow> bytes \<Rightarrow> int \<Rightarrow> int \<Rightarrow> int \<Rightarrow> ImageConverterStats \<Rightarrow>
   (conv_error + ImageResponse) \<times> ImageConverterStats" where
  "ic_convert_input useVips env inputData maxWidth maxHeight quality st =
     (if length inputData = 0 then ic_fail EmptyInputData st
      else if length inputData > 200 * 1024 * 1024 then ic_fail (FileTooLarge (length inputData)) st
      else if useVips
      then
        case ie_vips env quality inputData of
          Inr outputData \<Rightarrow> (Inr (ic_respond env outputData), ic_recordVipsSuccess (ie_elapsed env) st)
        | Inl m \<Rightarrow> ic_fallback env inputData maxWidth maxHeight quality st
      else ic_fallback env inputData maxWidth maxHeight quality st)"

definition ic_Convert ::
  "bool \<Rightarrow> image_env \<Rightarrow> ImageRequest \<Rightarrow> ImageConverterStats \<Rightarrow>
   (conv_error + ImageResponse) \<times> ImageConverterStats" where
  "ic_Convert useVips env req st =
     (let maxWidth = (if ir_MaxWidth req \<le> 0 then 1920 else ir_MaxWidth req);
          maxHeight = (if ir_MaxHeight req \<le> 0 then 1920 else ir_MaxHeight req);
          quality = effective_quality (ir_Quality req)
      in if ir_IsURL req
         then
           case ie_Download env (ir_Data req) of
             Inl e \<Rightarrow> ic_fail (DownloadFailed e) st
           | Inr inputData \<Rightarrow> ic_convert_input useVips env inputData maxWidth maxHeight quality st
         else
           case ie_DecodeString env (ir_Data req) of
             None \<Rightarrow> ic_fail Base64DecodeFailed st
           | Some inputData \<Rightarrow> ic_convert_input useVips env inputData maxWidth maxHeight quality st)"

section \<open>Provider errors\<close>

text \<open>
  Go error values: the sentinels of the provider package and of \<open>context\<close> that the
  code tests for, errors made by \<open>errors.New\<close> or \<open>fmt.Errorf\<close> without \<open>%w\<close>,
  errors wrapped by \<open>fmt.Errorf("...: %w", err)\<close>, and \<open>S3Error\<close> with its fields
  \<open>Provider\<close>, \<open>Operation\<close>, \<open>Key\<close>, \<open>StatusCode\<close> and \<open>Err\<close>.
\<close>

datatype go_error =
    ErrTimeout
  | ErrNetworkError
  | ErrInvalidBase64
  | ContextCanceled
  | ContextDeadlineExceeded
  | ErrorNew string
  | Wrapf string go_error
  | S3Error string string string int go_error

text \<open>\<open>errors.Is(err, target)\<close>: \<open>target\<close> occurs on the \<open>Unwrap\<close> chain of \<open>err\<close>.\<close>

fun errors_Is :: "go_error \<Rightarrow> go_error \<Rightarrow> bool" where
  "errors_Is (Wrapf m e) t = (Wrapf m e = t \<or> errors_Is e t)"
| "errors_Is (S3Error p op k sc e) t = (S3Error p op k sc e = t \<or> errors_Is e t)"
| "errors_Is e t = (e = t)"

text \<open>
  \<open>errors.As(err, &s3Err)\<close>: the status code of the first \<open>S3Error\<close> on the chain.
\<close>

fun errors_As_S3Error :: "go_error \<Rightarrow> int option" where
  "errors_As_S3Error (S3Error p op k sc e) = Some sc"
| "errors_As_S3Error (Wrapf m e) = errors_As_S3Error e"
| "errors_As_S3Error e = None"

text \<open>\<open>IsRetryableError(err)\<close>; \<open>None\<close> is the nil error.\<close>

definition IsRetryableError :: "go_error option \<Rightarrow> bool" where
  "IsRetryableError err =
     (case err of
        None \<Rightarrow> False
      | Some e \<Rightarrow>
          if errors_Is e ErrTimeout \<or> errors_Is e ErrNetworkError then True
          else
            (case errors_As_S3Error e of
               Some sc \<Rightarrow>
                 if sc \<ge> 500 \<and> sc < 600 then True
                 else if sc = 429 then True
                 else if sc = 408 then True
                 else False
             | None \<Rightarrow> False))"

text \<open>\<open>err.Error()\<close>.\<close>

fun Error_text :: "go_error \<Rightarrow> string" where
  "Error_text ErrTimeout = ''operation timed out''"
| "Error_text ErrNetworkError = ''network error during S3 operation''"
| "Error_text ErrInvalidBase64 = ''invalid base64 data''"
| "Error_text ContextCanceled = ''context canceled''"
| "Error_text ContextDeadlineExceeded = ''context deadline exceeded''"
| "Error_text (ErrorNew m) = m"
| "Error_text (Wrapf m e) = m @ '': '' @ Error_text e"
| "Error_text (S3Error p op k sc e) =
     (if k \<noteq> []
      then ''S3 '' @ p @ '' '' @ op @ '' failed for key '' @ [CHR 0x27] @ k @ [CHR 0x27]
           @ '': '' @ Error_text e
      else ''S3 '' @ p @ '' '' @ op @ '' failed: '' @ Error_text e)"

section \<open>Strings\<close>

text \<open>
  \<open>strings.HasPrefix\<close>, \<open>strings.TrimPrefix\<close>, \<open>strings.Contains\<close>, and
  \<open>strings.Split\<close> for a separator of one byte.
\<close>

definition HasPrefix :: "string \<Rightarrow> string \<Rightarrow> bool" where
  "HasPrefix s p = (take (length p) s = p)"

definition TrimPrefix :: "string \<Rightarrow> string \<Rightarrow> string" where
  "TrimPrefix s p = (if HasPrefix s p then drop (length p) s else s)"

fun Contains :: "string \<Rightarrow> string \<Rightarrow> bool" where
  "Contains [] sub = (sub = [])"
| "Contains (x # xs) sub = (HasPrefix (x # xs) sub \<or> Contains xs sub)"

fun Split :: "string \<Rightarrow> char \<Rightarrow> string list" where
  "Split [] sep = [[]]"
| "Split (x # xs) sep =
     (if x = sep then [] # Split xs sep
      else case Split xs sep of
             [] \<Rightarrow> [[x]]
           | p # ps \<Rightarrow> (x # p) # ps)"

section \<open>MinIO provider\<close>

record UploadOptions =
  uo_ContentType :: string
  uo_Metadata :: "(string \<times> string) list"
  uo_Public :: bool
  uo_ExpirationDays :: int
  uo_StorageClass :: string
  uo_hasProgressCallback :: bool
  uo_ChunkSize :: int
  uo_MaxConcurrentParts :: int

record UploadResult =
  ur_Key :: string
  ur_PublicURL :: string
  ur_Size :: int
  ur_ETag :: string
  ur_VersionID :: string
  ur_ExpiresAt :: "int option"
  ur_Provider :: string
  ur_UploadID :: string
  ur_ProcessingTime :: int

record S3Config =
  cfg_Endpoint :: string
  cfg_PublicEndpoint :: string
  cfg_Bucket :: string
  cfg_PathStyle :: bool
  cfg_MultipartThreshold :: int
  cfg_ChunkSize :: int
  cfg_RetryCount :: int

text \<open>\<open>S3Config.GetPublicURL(key)\<close>.\<close>

definition GetPublicURL :: "S3Config \<Rightarrow> string \<Rightarrow> string" where
  "GetPublicURL c key =
     (if cfg_PublicEndpoint c \<noteq> []
      then (if cfg_PathStyle c
            then cfg_PublicEndpoint c @ ''/'' @ cfg_Bucket c @ ''/'' @ key
            else cfg_PublicEndpoint c @ ''/'' @ key)
      else if cfg_PathStyle c
      then cfg_Endpoint c @ ''/'' @ cfg_Bucket c @ ''/'' @ key
      else ''https://'' @ cfg_Bucket c @ ''.'' @ cfg_Endpoint c @ ''/'' @ key)"

text \<open>The fields of \<open>minio.UploadInfo\<close> that the provider reads.\<close>

record put_info =
  pi_Size :: int
  pi_ETag :: string
  pi_VersionID :: string

definition zero_put_info :: put_info where
  "zero_put_info = \<lparr>pi_Size = 0, pi_ETag = [], pi_VersionID = []\<rparr>"

text \<open>
  What the world outside the provider answers during one call of \<open>Upload\<close>:
  \<^item> \<open>me_PutObject i\<close>: the outcome of \<open>client.PutObject\<close> in attempt \<open>i\<close>;
  \<^item> \<open>me_isSeekable\<close>: whether the reader is an \<open>io.ReadSeeker\<close>;
  \<^item> \<open>me_Seek i\<close>: the error of \<open>seeker.Seek(0, io.SeekStart)\<close> before attempt \<open>i\<close>;
  \<^item> \<open>me_ctxDone i\<close>: \<open>ctx.Err()\<close> when the context is done while waiting after
    attempt \<open>i\<close>, \<open>None\<close> when the timer fires first;
  \<^item> \<open>me_DecodeString\<close>: \<open>base64.StdEncoding.DecodeString\<close>;
  \<^item> \<open>me_processingTime\<close>: \<open>time.Since(startTime)\<close>; \<open>me_AddDate d\<close>:
    \<open>time.Now().AddDate(0, 0, d)\<close>.
\<close>

record minio_env =
  me_PutObject :: "nat \<Rightarrow> go_error + put_info"
  me_isSeekable :: bool
  me_Seek :: "nat \<Rightarrow> go_error option"
  me_ctxDone :: "nat \<Rightarrow> go_error option"
  me_DecodeString :: "string \<Rightarrow> bytes option"
  me_processingTime :: int
  me_AddDate :: "int \<Rightarrow> int"

text \<open>
  The head of each iteration of the retry loop of \<open>MinIOProvider.Upload\<close>: before
  every attempt after the first the reader is rewound; the result is the error that the
  function returns at this point, if any.
\<close>

definition minio_reset_reader :: "minio_env \<Rightarrow> string \<Rightarrow> nat \<Rightarrow> go_error option" where
  "minio_reset_reader env key attempt =
     (if attempt > 0
      then
        if me_isSeekable env
        then
          case me_Seek env attempt of
            Some seekErr \<Rightarrow>
              Some (S3Error ''minio'' ''upload'' key 0 (Wrapf ''failed to reset reader'' seekErr))
          | None \<Rightarrow> None
        else
          Some (S3Error ''minio'' ''upload'' key 0
                  (ErrorNew ''reader is not seekable; cannot retry upload''))
      else None)"

text \<open>
  The retry loop \<open>for attempt := 0; attempt <= p.config.RetryCount; attempt++\<close> of
  \<open>MinIOProvider.Upload\<close>, from iteration \<open>attempt\<close> on, with the current value of
  \<open>info\<close>. The result is the number of calls of \<open>PutObject\<close> made, and either the
  error returned from inside the loop or the value of \<open>info\<close> when the loop is left.
  The progress callback that follows a successful rewind acts on the caller's record
  only.
\<close>

function minio_put_loop ::
  "minio_env \<Rightarrow> int \<Rightarrow> string \<Rightarrow> nat \<Rightarrow> put_info \<Rightarrow> nat \<times> (go_error + put_info)" where
  "minio_put_loop env retryCount key attempt info =
     (if \<not> int attempt \<le> retryCount then (0, Inr info)
      else
        case minio_reset_reader env key attempt of
          Some e \<Rightarrow> (0, Inl e)
        | None \<Rightarrow>
            (case me_PutObject env attempt of
               Inr info' \<Rightarrow> (1, Inr info')
             | Inl err \<Rightarrow>
                 if \<not> IsRetryableError (Some err) \<or> int attempt = retryCount
                 then (1, Inl (S3Error ''minio'' ''upload'' key 0 err))
                 else
                   (case me_ctxDone env attempt of
                      Some ctxErr \<Rightarrow> (1, Inl (S3Error ''minio'' ''upload'' key 0 ctxErr))
                    | None \<Rightarrow>
                        let r = minio_put_loop env retryCount key (Suc attempt) zero_put_info
                        in (Suc (fst r), snd r))))"
  by pat_completeness auto
termination
  by (relation "measure (\<lambda>(env, retryCount, key, attempt, info). nat (retryCount + 1 - int attempt))")
     auto

declare minio_put_loop.simps [simp del]

text \<open>The upload result that \<open>MinIOProvider.Upload\<close> and \<open>MultipartUpload\<close> build.\<close>

definition minio_result :: "minio_env \<Rightarrow> S3Config \<Rightarrow> string \<Rightarrow> UploadOptions \<Rightarrow> put_info \<Rightarrow> UploadResult" where
  "minio_result env c key opts info =
     \<lparr>ur_Key = key,
      ur_PublicURL = GetPublicURL c key,
      ur_Size = pi_Size info,
      ur_ETag = pi_ETag info,
      ur_VersionID = pi_VersionID info,
      ur_ExpiresAt =
        (if uo_ExpirationDays opts > 0 then Some (me_AddDate env (uo_ExpirationDays opts)) else None),
      ur_Provider = ''minio'',
      ur_UploadID = [],
      ur_ProcessingTime = me_processingTime env\<rparr>"

text \<open>
  Provider operations return Go's pair \<open>(*UploadResult, error)\<close>, each component
  \<open>None\<close> when nil, together with the number of calls of \<open>PutObject\<close> made.
\<close>

type_synonym upload_return = "nat \<times> (UploadResult option \<times> go_error option)"

text \<open>\<open>MinIOProvider.MultipartUpload(ctx, key, reader, opts)\<close>.\<close>

definition minio_MultipartUpload ::
  "minio_env \<Rightarrow> S3Config \<Rightarrow> string \<Rightarrow> UploadOptions \<Rightarrow> upload_return" where
  "minio_MultipartUpload env c key opts =
     (case me_PutObject env 0 of
        Inl err \<Rightarrow> (1, (None, Some (S3Error ''minio'' ''multipart_upload'' key 0 err)))
      | Inr info \<Rightarrow> (1, (Some (minio_result env c key opts info), None)))"

text \<open>\<open>MinIOProvider.Upload(ctx, key, reader, size, opts)\<close>.\<close>

definition minio_Upload ::
  "minio_env \<Rightarrow> S3Config \<Rightarrow> string \<Rightarrow> int \<Rightarrow> UploadOptions \<Rightarrow> upload_return" where
  "minio_Upload env c key sz opts =
     (if sz \<ge> cfg_MultipartThreshold c then minio_MultipartUpload env c key opts
      else
        case minio_put_loop env (cfg_RetryCount c) key 0 zero_put_info of
          (n, Inl e) \<Rightarrow> (n, (None, Some e))
        | (n, Inr info) \<Rightarrow> (n, (Some (minio_result env c key opts info), None)))"

text \<open>\<open>MinIOProvider.UploadBase64(ctx, key, data, opts)\<close>.\<close>

definition minio_UploadBase64 ::
  "minio_env \<Rightarrow> S3Config \<Rightarrow> string \<Rightarrow> string \<Rightarrow> UploadOptions \<Rightarrow> upload_return" where
  "minio_UploadBase64 env c key data opts =
     (let parts = Split data (CHR '','');
          header = (case parts of [] \<Rightarrow> [] | h # _ \<Rightarrow> h)
      in if HasPrefix data ''data:'' \<and> length parts \<noteq> 2
         then (0, (None, Some (S3Error ''minio'' ''parse_base64'' key 0 ErrInvalidBase64)))
         else
           let detectedContentType =
                 (if HasPrefix data ''data:'' \<and> Contains header '';base64''
                  then TrimPrefix (case Split header (CHR '';'') of [] \<Rightarrow> [] | h # _ \<Rightarrow> h) ''data:''
                  else []);
               base64Data = (if HasPrefix data ''data:'' then parts ! 1 else data)
           in case me_DecodeString env base64Data of
                None \<Rightarrow> (0, (None, Some (S3Error ''minio'' ''decode_base64'' key 0 ErrInvalidBase64)))
              | Some decodedData \<Rightarrow>
                  minio_Upload env c key (int (length decodedData))
                    (if uo_ContentType opts = [] \<and> detectedContentType \<noteq> []
                     then opts\<lparr>uo_ContentType := detectedContentType\<rparr> else opts))"

section \<open>S3Service\<close>

text \<open>
  A provider as the service sees it: the \<open>UploadBase64\<close> method of the interface
  \<open>S3Provider\<close>, returning Go's pair \<open>(*UploadResult, error)\<close>.
\<close>

record S3Provider =
  p_UploadBase64 :: "string \<Rightarrow> string \<Rightarrow> UploadOptions \<Rightarrow> UploadResult option \<times> go_error option"

definition minio_provider :: "minio_env \<Rightarrow> S3Config \<Rightarrow> S3Provider" where
  "minio_provider env c =
     \<lparr>p_UploadBase64 = (\<lambda>key data opts. snd (minio_UploadBase64 env c key data opts))\<rparr>"

record S3Configuration =
  sc_PublicRead :: bool
  sc_DefaultExpirationDays :: int
  sc_EnableMetrics :: bool
  sc_LogUploads :: bool

record S3Service =
  svc_provider :: "S3Provider option"
  svc_config :: S3Configuration
  svc_stats :: S3Stats
  svc_enabled :: bool

text \<open>A call either returns or panics (a nil pointer dereference ends the goroutine).\<close>

datatype 'a outcome = Returns 'a | Panics string

text \<open>
  \<open>S3Service.UploadBase64(ctx, key, base64Data, opts)\<close>. The argument \<open>result.Size\<close>
  of \<open>updateStats\<close> is evaluated before the call, whatever \<open>err\<close> is. \<open>now\<close> is
  \<open>time.Now()\<close> and \<open>uploadTime\<close> is \<open>time.Since(startTime)\<close> inside \<open>updateStats\<close>.
\<close>

definition S3Service_UploadBase64 ::
  "int \<Rightarrow> int \<Rightarrow> string \<Rightarrow> string \<Rightarrow> UploadOptions \<Rightarrow> S3Service \<Rightarrow>
   ((UploadResult option \<times> go_error option) \<times> S3Service) outcome" where
  "S3Service_UploadBase64 now uploadTime key base64Data opts s =
     (if \<not> svc_enabled s then Returns ((None, Some (ErrorNew ''S3 service is disabled'')), s)
      else
        case svc_provider s of
          None \<Rightarrow> Returns ((None, Some (ErrorNew ''S3 provider not initialized'')), s)
        | Some provider \<Rightarrow>
            let opts1 = (if uo_ExpirationDays opts = 0
                         then opts\<lparr>uo_ExpirationDays := sc_DefaultExpirationDays (svc_config s)\<rparr>
                         else opts);
                opts2 = (if uo_Public opts1 \<noteq> True \<and> sc_PublicRead (svc_config s)
                         then opts1\<lparr>uo_Public := True\<rparr> else opts1);
                r = p_UploadBase64 provider key base64Data opts2
            in (case fst r of
                  None \<Rightarrow> Panics ''invalid memory address or nil pointer dereference''
                | Some result \<Rightarrow>
                    let s' = s\<lparr>svc_stats :=
                                 s3_updateStats (sc_EnableMetrics (svc_config s)) now uploadTime
                                   (ur_Size result) (snd r = None) (svc_stats s)\<rparr>
                    in (case snd r of
                          Some err \<Rightarrow> Returns ((None, Some err), s')
                        | None \<Rightarrow> Returns ((Some result, None), s'))))"

section \<open>UploadManager\<close>

datatype UploadStatus =
    UploadStatusPending
  | UploadStatusUploading
  | UploadStatusCompleted
  | UploadStatusFailed
  | UploadStatusCancelled

text \<open>
  \<open>UploadInfo\<close>. Times are instants on the caller's clock; \<open>ui_EndTime\<close> is \<open>None\<close>
  while the pointer is nil; \<open>ui_Progress\<close> is the percentage, which the operations below
  only set to \<open>0.0\<close> and \<open>100.0\<close>; \<open>ui_ctxCancelled\<close> records that the record's
  \<open>cancel\<close> function has been called.
\<close>

record UploadInfo =
  ui_ID :: string
  ui_Key :: string
  ui_Status :: UploadStatus
  ui_Progress :: int
  ui_BytesTransferred :: int
  ui_TotalBytes :: int
  ui_StartTime :: int
  ui_EndTime :: "int option"
  ui_Error :: string
  ui_Result :: "UploadResult option"
  ui_ContentType :: string
  ui_OriginalFilename :: string
  ui_ctxCancelled :: bool

text \<open>
  \<open>UploadManager\<close>: the map \<open>uploads\<close> from upload identifiers to records, and the two
  counters. A record is shared between the map and its worker; here both address it by
  its identifier.
\<close>

record UploadManager =
  um_uploads :: "string \<rightharpoonup> UploadInfo"
  um_maxConcurrent :: int
  um_currentUploads :: int

datatype um_error =
    CapacityReached int          \<comment> \<open>\<open>"maximum concurrent uploads reached (%d)"\<close>\<close>
  | UploadNotFound string        \<comment> \<open>\<open>"upload not found: %s"\<close>\<close>
  | CannotCancel UploadStatus    \<comment> \<open>\<open>"cannot cancel upload in status: %s"\<close>\<close>

text \<open>\<open>NewUploadManager(s3Service, maxConcurrent)\<close>.\<close>

definition NewUploadManager :: "int \<Rightarrow> UploadManager" where
  "NewUploadManager maxConcurrent =
     \<lparr>um_uploads = Map.empty,
      um_maxConcurrent = (if maxConcurrent \<le> 0 then 3 else maxConcurrent),
      um_currentUploads = 0\<rparr>"

text \<open>The record created by \<open>StartUpload\<close> and \<open>StartBase64Upload\<close>.\<close>

definition new_UploadInfo :: "string \<Rightarrow> int \<Rightarrow> string \<Rightarrow> int \<Rightarrow> UploadOptions \<Rightarrow> UploadInfo" where
  "new_UploadInfo uploadID now key totalBytes opts =
     \<lparr>ui_ID = uploadID,
      ui_Key = key,
      ui_Status = UploadStatusPending,
      ui_Progress = 0,
      ui_BytesTransferred = 0,
      ui_TotalBytes = totalBytes,
      ui_StartTime = now,
      ui_EndTime = None,
      ui_Error = [],
      ui_Result = None,
      ui_ContentType = uo_ContentType opts,
      ui_OriginalFilename = [],
      ui_ctxCancelled = False\<rparr>"

text \<open>
  \<open>UploadManager.StartUpload(ctx, key, reader, size, opts)\<close>; \<open>uploadID\<close> is the value
  of \<open>uuid.New().String()\<close> and \<open>now\<close> that of \<open>time.Now()\<close>. On success the worker
  \<open>performUpload\<close> has been started for the new record; its steps are below.
\<close>

definition StartUpload ::
  "string \<Rightarrow> int \<Rightarrow> string \<Rightarrow> int \<Rightarrow> UploadOptions \<Rightarrow> UploadManager \<Rightarrow>
   (um_error + UploadInfo) \<times> UploadManager" where
  "StartUpload uploadID now key sz opts um =
     (if um_currentUploads um \<ge> um_maxConcurrent um
      then (Inl (CapacityReached (um_maxConcurrent um)), um)
      else
        let um1 = um\<lparr>um_currentUploads := wrap64 (um_currentUploads um + 1)\<rparr>;
            uploadInfo = new_UploadInfo uploadID now key sz opts
        in (Inr uploadInfo, um1\<lparr>um_uploads := (um_uploads um1)(uploadID \<mapsto> uploadInfo)\<rparr>))"

text \<open>\<open>UploadManager.StartBase64Upload(ctx, key, base64Data, opts)\<close>.\<close>

definition StartBase64Upload ::
  "string \<Rightarrow> int \<Rightarrow> string \<Rightarrow> string \<Rightarrow> UploadOptions \<Rightarrow> UploadManager \<Rightarrow>
   (um_error + UploadInfo) \<times> UploadManager" where
  "StartBase64Upload uploadID now key base64Data opts um =
     (if um_currentUploads um \<ge> um_maxConcurrent um
      then (Inl (CapacityReached (um_maxConcurrent um)), um)
      else
        let um1 = um\<lparr>um_currentUploads := wrap64 (um_currentUploads um + 1)\<rparr>;
            uploadInfo = new_UploadInfo uploadID now key (int (length base64Data)) opts
        in (Inr uploadInfo, um1\<lparr>um_uploads := (um_uploads um1)(uploadID \<mapsto> uploadInfo)\<rparr>))"

text \<open>\<open>UploadManager.CancelUpload(uploadID)\<close>; the result is \<open>None\<close> for a nil error.\<close>

definition CancelUpload :: "string \<Rightarrow> int \<Rightarrow> UploadManager \<Rightarrow> um_error option \<times> UploadManager" where
  "CancelUpload uploadID now um =
     (case um_uploads um uploadID of
        None \<Rightarrow> (Some (UploadNotFound uploadID), um)
      | Some uploadInfo \<Rightarrow>
          if ui_Status uploadInfo = UploadStatusCompleted \<or> ui_Status uploadInfo = UploadStatusFailed
          then (Some (CannotCancel (ui_Status uploadInfo)), um)
          else
            let uploadInfo' = uploadInfo\<lparr>ui_ctxCancelled := True,
                                           ui_Status := UploadStatusCancelled,
                                           ui_EndTime := Some now\<rparr>
            in (None, um\<lparr>um_uploads := (um_uploads um)(uploadID \<mapsto> uploadInfo'),
                          um_currentUploads := wrap64 (um_currentUploads um - 1)\<rparr>))"

text \<open>
  The worker. \<open>performUpload\<close> and \<open>performBase64Upload\<close> each consist of three steps
  that other calls can interleave with: the first critical section on the record (for
  \<open>performUpload\<close> followed by the first progress report of \<open>wrapWithProgress\<close>), the
  second critical section after the provider has answered with \<open>res\<close>, and the deferred
  function that runs when the worker returns.
\<close>

definition on_record :: "string \<Rightarrow> (UploadInfo \<Rightarrow> UploadInfo) \<Rightarrow> UploadManager \<Rightarrow> UploadManager" where
  "on_record uploadID f um =
     (case um_uploads um uploadID of
        None \<Rightarrow> um
      | Some uploadInfo \<Rightarrow> um\<lparr>um_uploads := (um_uploads um)(uploadID \<mapsto> f uploadInfo)\<rparr>)"

definition performUpload_begin :: "string \<Rightarrow> UploadManager \<Rightarrow> UploadManager" where
  "performUpload_begin uploadID um =
     on_record uploadID
       (\<lambda>uploadInfo.
          let u1 = uploadInfo\<lparr>ui_Status := UploadStatusUploading\<rparr>
          in if ui_TotalBytes u1 > 0 then u1\<lparr>ui_BytesTransferred := 0, ui_Progress := 0\<rparr> else u1)
       um"

definition performUpload_finish ::
  "string \<Rightarrow> go_error + UploadResult \<Rightarrow> int \<Rightarrow> UploadManager \<Rightarrow> UploadManager" where
  "performUpload_finish uploadID res now um =
     on_record uploadID
       (\<lambda>uploadInfo.
          let u1 = uploadInfo\<lparr>ui_EndTime := Some now\<rparr>
          in case res of
               Inl err \<Rightarrow> u1\<lparr>ui_Status := UploadStatusFailed, ui_Error := Error_text err\<rparr>
             | Inr result \<Rightarrow>
                 u1\<lparr>ui_Status := UploadStatusCompleted, ui_Result := Some result,
                    ui_Progress := 100, ui_BytesTransferred := ur_Size result\<rparr>)
       um"

definition performBase64Upload_begin :: "string \<Rightarrow> UploadManager \<Rightarrow> UploadManager" where
  "performBase64Upload_begin uploadID um =
     on_record uploadID (\<lambda>uploadInfo. uploadInfo\<lparr>ui_Status := UploadStatusUploading\<rparr>) um"

definition performBase64Upload_finish ::
  "string \<Rightarrow> go_error + UploadResult \<Rightarrow> int \<Rightarrow> UploadManager \<Rightarrow> UploadManager" where
  "performBase64Upload_finish uploadID res now um =
     on_record uploadID
       (\<lambda>uploadInfo.
          let u1 = uploadInfo\<lparr>ui_EndTime := Some now\<rparr>
          in case res of
               Inl err \<Rightarrow> u1\<lparr>ui_Status := UploadStatusFailed, ui_Error := Error_text err\<rparr>
             | Inr result \<Rightarrow>
                 u1\<lparr>ui_Status := UploadStatusCompleted, ui_Result := Some result,
                    ui_Progress := 100, ui_BytesTransferred := ur_Size result,
                    ui_TotalBytes := ur_Size result\<rparr>)
       um"

definition worker_exit :: "UploadManager \<Rightarrow> UploadManager" where
  "worker_exit um = um\<lparr>um_currentUploads := wrap64 (um_currentUploads um - 1)\<rparr>"

text \<open>A whole run of a worker with no other call in between.\<close>

definition performUpload ::
  "string \<Rightarrow> go_error + UploadResult \<Rightarrow> int \<Rightarrow> UploadManager \<Rightarrow> UploadManager" where
  "performUpload uploadID res now um =
     worker_exit (performUpload_finish uploadID res now (performUpload_begin uploadID um))"

definition performBase64Upload ::
  "string \<Rightarrow> go_error + UploadResult \<Rightarrow> int \<Rightarrow> UploadManager \<Rightarrow> UploadManager" where
  "performBase64Upload uploadID res now um =
     worker_exit (performBase64Upload_finish uploadID res now (performBase64Upload_begin uploadID um))"

text \<open>The status of a record, as \<open>GetUploadStatus\<close> reports it.\<close>

definition status_of :: "string \<Rightarrow> UploadManager \<Rightarrow> UploadStatus option" where
  "status_of uploadID um = map_option ui_Status (um_uploads um uploadID)"

section \<open>Example inputs\<close>

definition ex_image_request :: ImageRequest where
  "ex_image_request =
     \<lparr>ir_Data = ''aGVsbG8='', ir_IsURL = False, ir_MaxWidth = 0, ir_MaxHeight = 0, ir_Quality = 90\<rparr>"

definition ex_audio_request :: AudioRequest where
  "ex_audio_request = \<lparr>ar_Data = ''aGVsbG8='', ar_IsURL = False, ar_InputType = ''mp3''\<rparr>"

definition ex_audio_stats :: AudioConverterStats where
  "ex_audio_stats =
     \<lparr>ac_TotalConversions = 7, ac_FailedConversions = 2, ac_AvgConversionTime = 1000\<rparr>"

definition ex_image_stats :: ImageConverterStats where
  "ex_image_stats =
     \<lparr>ic_TotalConversions = 7, ic_FailedConversions = 2, ic_AvgConversionTime = 1000,
      ic_VipsConversions = 4, ic_FFmpegConversions = 1\<rparr>"

text \<open>An environment in which the input decodes and every external tool fails.\<close>

definition ex_audio_env :: audio_env where
  "ex_audio_env =
     \<lparr>ae_Download = (\<lambda>url. Inl (HttpStatus 404)),
      ae_DecodeString = (\<lambda>s. Some ''hello''),
      ae_EncodeToString = (\<lambda>b. ''aGVsbG8=''),
      ae_convertToOpus = (\<lambda>b. Inl ''ffmpeg error''),
      ae_getAudioDuration = (\<lambda>b. 0),
      ae_elapsed = 250\<rparr>"

definition ex_image_env :: image_env where
  "ex_image_env =
     \<lparr>ie_Download = (\<lambda>url. Inl (HttpStatus 404)),
      ie_DecodeString = (\<lambda>s. Some ''hello''),
      ie_EncodeToString = (\<lambda>b. ''aGVsbG8=''),
      ie_vips = (\<lambda>q b. Inl ''vips error''),
      ie_ffmpeg = (\<lambda>c b. Inl ''ffmpeg error''),
      ie_getImageDimensions = (\<lambda>b. (0, 0)),
      ie_elapsed = 250\<rparr>"

text \<open>
  An environment in which the image library fails and the transcoder answers only the
  command whose \<open>-q:v\<close> value is 5.
\<close>

definition ex_image_env_q :: image_env where
  "ex_image_env_q =
     \<lparr>ie_Download = (\<lambda>url. Inl (HttpStatus 404)),
      ie_DecodeString = (\<lambda>s. Some ''hello''),
      ie_EncodeToString = (\<lambda>b. ''aGVsbG8=''),
      ie_vips = (\<lambda>q b. Inl ''vips error''),
      ie_ffmpeg = (\<lambda>c b. if fc_qv c = 5 then Inr ''jpeg'' else Inl ''ffmpeg error''),
      ie_getImageDimensions = (\<lambda>b. (0, 0)),
      ie_elapsed = 250\<rparr>"

definition ex_downloader_stats :: DownloaderStats where
  "ex_downloader_stats =
     \<lparr>dl_TotalDownloads = 7, dl_FailedDownloads = 2, dl_TotalBytes = 4096, dl_AvgDownloadTime = 1000\<rparr>"

definition ex_s3_stats :: S3Stats where
  "ex_s3_stats =
     \<lparr>s3_TotalUploads = 7, s3_SuccessfulUploads = 5, s3_FailedUploads = 2, s3_TotalBytes = 4096,
      s3_AverageUploadTime = 1000, s3_LastUpload = 0\<rparr>"

definition ex_options :: UploadOptions where
  "ex_options =
     \<lparr>uo_ContentType = ''image/png'', uo_Metadata = [], uo_Public = False, uo_ExpirationDays = 0,
      uo_StorageClass = ''STANDARD'', uo_hasProgressCallback = False, uo_ChunkSize = 0,
      uo_MaxConcurrentParts = 0\<rparr>"

definition ex_full_manager :: UploadManager where
  "ex_full_manager = snd (StartUpload ''u1'' 100 ''a.png'' 2048 ex_options (NewUploadManager 1))"

definition ex_body :: body where
  "ex_body = \<lparr>bdata = ''abcdefghijk'', berr = None\<rparr>"

definition ex_config :: S3Config where
  "ex_config =
     \<lparr>cfg_Endpoint = ''http://localhost:9000'', cfg_PublicEndpoint = [], cfg_Bucket = ''media'',
      cfg_PathStyle = True, cfg_MultipartThreshold = 5 * 1024 * 1024,
      cfg_ChunkSize = 10 * 1024 * 1024, cfg_RetryCount = 3\<rparr>"

definition ex_503 :: go_error where
  "ex_503 = S3Error ''minio'' ''put_object'' ''a.png'' 503 (ErrorNew ''Service Unavailable'')"

text \<open>
  A forward-only reader, and attempts that all fail with a retryable error: an \<open>S3Error\<close>
  carrying status 503.
\<close>

definition ex_minio_env :: minio_env where
  "ex_minio_env =
     \<lparr>me_PutObject = (\<lambda>i. Inl ex_503),
      me_isSeekable = False,
      me_Seek = (\<lambda>i. None),
      me_ctxDone = (\<lambda>i. None),
      me_DecodeString = (\<lambda>s. if s = ''aGVsbG8='' then Some ''hello'' else None),
      me_processingTime = 250,
      me_AddDate = (\<lambda>d. 1000 + d * 86400)\<rparr>"

definition ex_service :: S3Service where
  "ex_service =
     \<lparr>svc_provider = Some (minio_provider ex_minio_env ex_config),
      svc_config = \<lparr>sc_PublicRead = True, sc_DefaultExpirationDays = 0, sc_EnableMetrics = True,
                     sc_LogUploads = False\<rparr>,
      svc_stats = ex_s3_stats,
      svc_enabled = True\<rparr>"

text \<open>
  A manager for one concurrent upload after one admission (\<open>ex_full_manager\<close>), then
  after \<open>CancelUpload\<close> of that upload, then after its worker has run to its end with
  the provider reporting the cancelled context.
\<close>

definition ex_ctx_error :: go_error where
  "ex_ctx_error = S3Error ''minio'' ''upload'' ''a.png'' 0 ContextCanceled"

definition ex_cancelled :: UploadManager where
  "ex_cancelled = snd (CancelUpload ''u1'' 200 ex_full_manager)"

definition ex_worker_done :: UploadManager where
  "ex_worker_done = performUpload ''u1'' (Inl ex_ctx_error) 300 ex_cancelled"

text \<open>The same upload cancelled while its worker is between its two critical sections.\<close>

definition ex_cancelled_in_flight :: UploadManager where
  "ex_cancelled_in_flight = snd (CancelUpload ''u1'' 200 (performUpload_begin ''u1'' ex_full_manager))"

definition ex_result :: UploadResult where
  "ex_result =
     \<lparr>ur_Key = ''a.png'', ur_PublicURL = ''http://localhost:9000/media/a.png'', ur_Size = 2048,
      ur_ETag = ''etag'', ur_VersionID = [], ur_ExpiresAt = None, ur_Provider = ''minio'',
      ur_UploadID = [], ur_ProcessingTime = 250\<rparr>"

section \<open>Arithmetic facts\<close>

lemma wrap64_id: "- (2 ^ 63) \<le> x \<Longrightarrow> x < 2 ^ 63 \<Longrightarrow> wrap64 x = x"
  by (simp add: wrap64_def)

lemma go_quot_nonneg: "0 \<le> a \<Longrightarrow> 0 < b \<Longrightarrow> go_quot a b = a div b"
  by (cases "a = 0") (simp_all add: go_quot_def)

lemma wrap64_succ: "- (2 ^ 63) \<le> x \<Longrightarrow> x < 2 ^ 63 - 1 \<Longrightarrow> wrap64 (x + 1) = x + 1"
  by (rule wrap64_id) simp_all

section \<open>The transcoder quality\<close>

lemma ffmpegQuality_spec:
  assumes "1 \<le> q" and "q \<le> 100"
  shows "ffmpegQuality q = spec_ffmpeg_q q"
proof -
  from assms have r: "- (2 ^ 63) \<le> q * 29" "q * 29 < 2 ^ 63" by simp_all
  have w1: "wrap64 (q * 29) = q * 29" by (rule wrap64_id [OF r])
  from assms have g: "go_quot (q * 29) 100 = q * 29 div 100"
    by (intro go_quot_nonneg) simp_all
  from assms have lo: "0 \<le> q * 29 div 100" by simp
  from assms have hi: "q * 29 div 100 \<le> 29" by simp
  from lo hi have w2: "wrap64 (31 - q * 29 div 100) = 31 - q * 29 div 100"
    by (intro wrap64_id) simp_all
  from lo hi show ?thesis
    by (simp add: ffmpegQuality_def spec_ffmpeg_q_def spec_clamp_def w1 g w2 Let_def)
qed

lemma effective_quality_range: "1 \<le> effective_quality r \<and> effective_quality r \<le> 100"
  by (simp add: effective_quality_def)

text \<open>
  \<open>convertWithFFmpeg\<close> hands the transcoder the two bounds it was given and, for a
  quality in \<open>[1, 100]\<close>, the \<open>-q:v\<close> value of the specification; \<open>ic_fallback\<close> returns
  what the transcoder answers to that command.
\<close>

lemma convertWithFFmpeg_quality:
  assumes "1 \<le> q" and "q \<le> 100"
  shows "convertWithFFmpeg env inp w h q =
           ie_ffmpeg env \<lparr>fc_maxWidth = w, fc_maxHeight = h, fc_qv = spec_ffmpeg_q q\<rparr> inp"
  by (simp add: convertWithFFmpeg_def convertWithFFmpeg_cmd_def ffmpegQuality_spec [OF assms])

lemma ic_fallback_quality:
  assumes "1 \<le> q" and "q \<le> 100"
  shows "ic_fallback env inp w h q st =
           (case ie_ffmpeg env \<lparr>fc_maxWidth = w, fc_maxHeight = h, fc_qv = spec_ffmpeg_q q\<rparr> inp of
              Inl m \<Rightarrow> (Inl (ConversionFailed m), ic_recordFailure st)
            | Inr outputData \<Rightarrow>
                (Inr (ic_respond env outputData), ic_recordFFmpegSuccess (ie_elapsed env) st))"
  by (cases "ie_ffmpeg env \<lparr>fc_maxWidth = w, fc_maxHeight = h, fc_qv = spec_ffmpeg_q q\<rparr> inp")
     (simp_all add: ic_fallback_def ic_fail_def convertWithFFmpeg_quality [OF assms])

lemma ic_convert_input_fallback:
  assumes "inp \<noteq> []" and "length inp \<le> 200 * 1024 * 1024"
      and "\<not> useVips \<or> (\<exists>m. ie_vips env q inp = Inl m)"
  shows "ic_convert_input useVips env inp w h q st = ic_fallback env inp w h q st"
  using assms by (auto simp add: ic_convert_input_def)

lemma ic_Convert_input:
  assumes "(ir_IsURL req \<and> ie_Download env (ir_Data req) = Inr inp)
           \<or> (\<not> ir_IsURL req \<and> ie_DecodeString env (ir_Data req) = Some inp)"
  shows "ic_Convert useVips env req st =
           ic_convert_input useVips env inp
             (if ir_MaxWidth req \<le> 0 then 1920 else ir_MaxWidth req)
             (if ir_MaxHeight req \<le> 0 then 1920 else ir_MaxHeight req)
             (effective_quality (ir_Quality req)) st"
  using assms by (auto simp add: ic_Convert_def Let_def)

text \<open>
  C8. For every quality \<open>q\<close> in \<open>[1, 100]\<close>, \<open>convertWithFFmpeg\<close> calls the transcoder
  with the \<open>-q:v\<close> value \<open>clamp(31 - q * 29 / 100, 2, 31)\<close> (the integer division of the
  code) and \<open>ic_fallback\<close> returns what the transcoder answers to that command. Every call
  of \<open>Convert\<close> that takes the fallback path (the input is obtained, is not empty and
  not above 200 MiB, and the image library is absent or fails) with effective quality
  \<open>q\<close> returns what the transcoder answers to the command with that \<open>-q:v\<close> value and
  the defaulted bounds.
\<close>

theorem ffmpeg_quality_is_spec_clamp:
  assumes "1 \<le> q" and "q \<le> 100"
  shows "convertWithFFmpeg env input w h q =
           ie_ffmpeg env \<lparr>fc_maxWidth = w, fc_maxHeight = h, fc_qv = spec_ffmpeg_q q\<rparr> input
       \<and> ic_fallback env input w h q st =
           (case ie_ffmpeg env \<lparr>fc_maxWidth = w, fc_maxHeight = h, fc_qv = spec_ffmpeg_q q\<rparr> input of
              Inl m \<Rightarrow> (Inl (ConversionFailed m), ic_recordFailure st)
            | Inr outputData \<Rightarrow>
                (Inr (ic_respond env outputData), ic_recordFFmpegSuccess (ie_elapsed env) st))
       \<and> (effective_quality (ir_Quality req) = q
          \<and> ((ir_IsURL req \<and> ie_Download env (ir_Data req) = Inr inp)
             \<or> (\<not> ir_IsURL req \<and> ie_DecodeString env (ir_Data req) = Some inp))
          \<and> inp \<noteq> [] \<and> length inp \<le> 200 * 1024 * 1024
          \<and> (\<not> useVips \<or> (\<exists>m. ie_vips env q inp = Inl m))
          \<longrightarrow> ic_Convert useVips env req st =
                (case ie_ffmpeg env
                        \<lparr>fc_maxWidth = (if ir_MaxWidth req \<le> 0 then 1920 else ir_MaxWidth req),
                         fc_maxHeight = (if ir_MaxHeight req \<le> 0 then 1920 else ir_MaxHeight req),
                         fc_qv = spec_ffmpeg_q q\<rparr> inp of
                   Inl m \<Rightarrow> (Inl (ConversionFailed m), ic_recordFailure st)
                 | Inr outputData \<Rightarrow>
                     (Inr (ic_respond env outputData),
                      ic_recordFFmpegSuccess (ie_elapsed env) st)))"
proof -
  have a: "convertWithFFmpeg env input w h q =
           ie_ffmpeg env \<lparr>fc_maxWidth = w, fc_maxHeight = h, fc_qv = spec_ffmpeg_q q\<rparr> input"
    by (rule convertWithFFmpeg_quality [OF assms])
  note b = ic_fallback_quality [OF assms, of env input w h st]
  have c: "ic_Convert useVips env req st =
                (case ie_ffmpeg env
                        \<lparr>fc_maxWidth = (if ir_MaxWidth req \<le> 0 then 1920 else ir_MaxWidth req),
                         fc_maxHeight = (if ir_MaxHeight req \<le> 0 then 1920 else ir_MaxHeight req),
                         fc_qv = spec_ffmpeg_q q\<rparr> inp of
                   Inl m \<Rightarrow> (Inl (ConversionFailed m), ic_recordFailure st)
                 | Inr outputData \<Rightarrow>
                     (Inr (ic_respond env outputData),
                      ic_recordFFmpegSuccess (ie_elapsed env) st))"
    if eq: "effective_quality (ir_Quality req) = q"
      and i: "(ir_IsURL req \<and> ie_Download env (ir_Data req) = Inr inp)
             \<or> (\<not> ir_IsURL req \<and> ie_DecodeString env (ir_Data req) = Some inp)"
      and ne: "inp \<noteq> []" and le: "length inp \<le> 200 * 1024 * 1024"
      and v: "\<not> useVips \<or> (\<exists>m. ie_vips env q inp = Inl m)"
  proof -
    let ?w = "if ir_MaxWidth req \<le> 0 then 1920 else ir_MaxWidth req"
    let ?h = "if ir_MaxHeight req \<le> 0 then 1920 else ir_MaxHeight req"
    have "ic_Convert useVips env req st = ic_convert_input useVips env inp ?w ?h q st"
      using ic_Convert_input [OF i, of useVips st] eq by simp
    also have "\<dots> = ic_fallback env inp ?w ?h q st"
      by (rule ic_convert_input_fallback [OF ne le v])
    also note ic_fallback_quality [OF assms, of env inp ?w ?h st]
    finally show ?thesis .
  qed
  from a b c show ?thesis by blast
qed

theorem ffmpeg_quality_is_spec_clamp_witness:
  "(1::int) \<le> 90 \<and> (90::int) \<le> 100
   \<and> effective_quality (ir_Quality ex_image_request) = 90
   \<and> \<not> ir_IsURL ex_image_request
   \<and> ie_DecodeString ex_image_env_q (ir_Data ex_image_request) = Some ''hello''
   \<and> ie_vips ex_image_env_q 90 ''hello'' = Inl ''vips error''
   \<and> spec_ffmpeg_q 90 = 5
   \<and> convertWithFFmpeg ex_image_env_q ''hello'' 1920 1920 90 = Inr ''jpeg''
   \<and> ic_Convert True ex_image_env_q ex_image_request ex_image_stats =
       (Inr (ic_respond ex_image_env_q ''jpeg''),
        ic_recordFFmpegSuccess (ie_elapsed ex_image_env_q) ex_image_stats)"
proof -
  have h: "effective_quality (ir_Quality ex_image_request) = 90"
          "\<not> ir_IsURL ex_image_request"
          "ie_DecodeString ex_image_env_q (ir_Data ex_image_request) = Some ''hello''"
          "ie_vips ex_image_env_q 90 ''hello'' = Inl ''vips error''"
    by (simp_all add: effective_quality_def ex_image_request_def ex_image_env_q_def)
  have v: "spec_ffmpeg_q 90 = 5"
    by (simp add: spec_ffmpeg_q_def spec_clamp_def)
  have w: "ir_MaxWidth ex_image_request = 0" "ir_MaxHeight ex_image_request = 0"
    by (simp_all add: ex_image_request_def)
  have f: "\<And>mw mh b. ie_ffmpeg ex_image_env_q \<lparr>fc_maxWidth = mw, fc_maxHeight = mh, fc_qv = 5\<rparr> b
             = Inr ''jpeg''"
    by (simp add: ex_image_env_q_def)
  from ffmpeg_quality_is_spec_clamp
         [of 90 ex_image_env_q "''hello''" 1920 1920 ex_image_stats ex_image_request "''hello''" True]
       h v w f
  show ?thesis by simp
qed

section \<open>Failed conversions are counted\<close>

lemma ac_convert_input_cases:
  "(\<exists>e. ac_convert_input env inp st = (Inl e, ac_recordFailure st)) \<or>
   (\<exists>r. ac_convert_input env inp st = (Inr r, ac_recordSuccess (ae_elapsed env) st))"
  unfolding ac_convert_input_def ac_fail_def
  by (simp split: sum.split)

lemma ac_Convert_cases:
  "(\<exists>e. ac_Convert env req st = (Inl e, ac_recordFailure st)) \<or>
   (\<exists>r. ac_Convert env req st = (Inr r, ac_recordSuccess (ae_elapsed env) st))"
proof (cases "ar_IsURL req")
  case True
  show ?thesis
  proof (cases "ae_Download env (ar_Data req)")
    case (Inl e)
    with True show ?thesis by (simp add: ac_Convert_def ac_fail_def)
  next
    case (Inr inp)
    with True show ?thesis
      using ac_convert_input_cases [of env inp st]
      by (simp add: ac_Convert_def)
  qed
next
  case False
  show ?thesis
  proof (cases "ae_DecodeString env (ar_Data req)")
    case None
    with False show ?thesis by (simp add: ac_Convert_def ac_fail_def)
  next
    case (Some inp)
    with False show ?thesis
      using ac_convert_input_cases [of env inp st]
      by (simp add: ac_Convert_def)
  qed
qed

lemma ic_fallback_cases:
  "(\<exists>e. ic_fallback env inp w h q st = (Inl e, ic_recordFailure st)) \<or>
   (\<exists>r. ic_fallback env inp w h q st = (Inr r, ic_recordFFmpegSuccess (ie_elapsed env) st))"
  unfolding ic_fallback_def ic_fail_def
  by (simp split: sum.split)

lemma ic_convert_input_cases:
  "(\<exists>e. ic_convert_input v env inp w h q st = (Inl e, ic_recordFailure st)) \<or>
   (\<exists>r. ic_convert_input v env inp w h q st = (Inr r, ic_recordVipsSuccess (ie_elapsed env) st)) \<or>
   (\<exists>r. ic_convert_input v env inp w h q st = (Inr r, ic_recordFFmpegSuccess (ie_elapsed env) st))"
  unfolding ic_convert_input_def
  using ic_fallback_cases [of env inp w h q st]
  by (auto simp add: ic_fail_def split: sum.split)

lemma ic_Convert_cases:
  "(\<exists>e. ic_Convert v env req st = (Inl e, ic_recordFailure st)) \<or>
   (\<exists>r. ic_Convert v env req st = (Inr r, ic_recordVipsSuccess (ie_elapsed env) st)) \<or>
   (\<exists>r. ic_Convert v env req st = (Inr r, ic_recordFFmpegSuccess (ie_elapsed env) st))"
proof (cases "ir_IsURL req")
  case True
  show ?thesis
  proof (cases "ie_Download env (ir_Data req)")
    case (Inl e)
    with True show ?thesis by (simp add: ic_Convert_def ic_fail_def)
  next
    case (Inr inp)
    with True show ?thesis
      using ic_convert_input_cases [of v env inp _ _ _ st]
      by (simp add: ic_Convert_def Let_def)
  qed
next
  case False
  show ?thesis
  proof (cases "ie_DecodeString env (ir_Data req)")
    case None
    with False show ?thesis by (simp add: ic_Convert_def ic_fail_def)
  next
    case (Some inp)
    with False show ?thesis
      using ic_convert_input_cases [of v env inp _ _ _ st]
      by (simp add: ic_Convert_def Let_def)
  qed
qed

text \<open>
  C10. For both converters, \<open>recordFailure\<close> increments \<open>TotalConversions\<close> as
  well as \<open>FailedConversions\<close>, and every success recorder increments
  \<open>TotalConversions\<close> and leaves \<open>FailedConversions\<close> as it is. Every call of
  \<open>Convert\<close> that fails leaves the statistics as \<open>recordFailure\<close> does and every call
  that succeeds as one of the success recorders does, so each call adds one to
  \<open>TotalConversions\<close> (it counts attempts, successes plus failures) and one to
  \<open>FailedConversions\<close> exactly when it fails; and
  \<open>FailedConversions \<le> TotalConversions\<close> is preserved by every recorder and by
  \<open>Convert\<close>. The counters are 64-bit: the statement is for counters that hold
  \<open>int64\<close> values and have not reached \<open>math.MaxInt64\<close>.
\<close>

theorem failed_conversions_counted_in_total:
  assumes "- (2 ^ 63) \<le> ac_FailedConversions a"
      and "ac_FailedConversions a \<le> ac_TotalConversions a"
      and "ac_TotalConversions a < 2 ^ 63 - 1"
      and "- (2 ^ 63) \<le> ic_FailedConversions i"
      and "ic_FailedConversions i \<le> ic_TotalConversions i"
      and "ic_TotalConversions i < 2 ^ 63 - 1"
  shows "ac_TotalConversions (ac_recordFailure a) = ac_TotalConversions a + 1
       \<and> ac_FailedConversions (ac_recordFailure a) = ac_FailedConversions a + 1
       \<and> ac_FailedConversions (ac_recordSuccess d a) \<le> ac_TotalConversions (ac_recordSuccess d a)
       \<and> ((\<exists>e. ac_Convert aenv areq a = (Inl e, ac_recordFailure a)) \<or>
          (\<exists>r. ac_Convert aenv areq a = (Inr r, ac_recordSuccess (ae_elapsed aenv) a)))
       \<and> ac_FailedConversions (snd (ac_Convert aenv areq a))
           \<le> ac_TotalConversions (snd (ac_Convert aenv areq a))
       \<and> ic_TotalConversions (ic_recordFailure i) = ic_TotalConversions i + 1
       \<and> ic_FailedConversions (ic_recordFailure i) = ic_FailedConversions i + 1
       \<and> ic_FailedConversions (ic_recordVipsSuccess d i) \<le> ic_TotalConversions (ic_recordVipsSuccess d i)
       \<and> ic_FailedConversions (ic_recordFFmpegSuccess d i) \<le> ic_TotalConversions (ic_recordFFmpegSuccess d i)
       \<and> ((\<exists>e. ic_Convert v ienv ireq i = (Inl e, ic_recordFailure i)) \<or>
          (\<exists>r. ic_Convert v ienv ireq i = (Inr r, ic_recordVipsSuccess (ie_elapsed ienv) i)) \<or>
          (\<exists>r. ic_Convert v ienv ireq i = (Inr r, ic_recordFFmpegSuccess (ie_elapsed ienv) i)))
       \<and> ic_FailedConversions (snd (ic_Convert v ienv ireq i))
           \<le> ic_TotalConversions (snd (ic_Convert v ienv ireq i))
       \<and> ac_TotalConversions (ac_recordSuccess d a) = ac_TotalConversions a + 1
       \<and> ac_FailedConversions (ac_recordSuccess d a) = ac_FailedConversions a
       \<and> ic_TotalConversions (ic_recordVipsSuccess d i) = ic_TotalConversions i + 1
       \<and> ic_FailedConversions (ic_recordVipsSuccess d i) = ic_FailedConversions i
       \<and> ic_TotalConversions (ic_recordFFmpegSuccess d i) = ic_TotalConversions i + 1
       \<and> ic_FailedConversions (ic_recordFFmpegSuccess d i) = ic_FailedConversions i
       \<and> ac_TotalConversions (snd (ac_Convert aenv areq a)) = ac_TotalConversions a + 1
       \<and> ac_FailedConversions (snd (ac_Convert aenv areq a))
           = ac_FailedConversions a + (case fst (ac_Convert aenv areq a) of Inl e \<Rightarrow> 1 | Inr r \<Rightarrow> 0)
       \<and> ic_TotalConversions (snd (ic_Convert v ienv ireq i)) = ic_TotalConversions i + 1
       \<and> ic_FailedConversions (snd (ic_Convert v ienv ireq i))
           = ic_FailedConversions i + (case fst (ic_Convert v ienv ireq i) of Inl e \<Rightarrow> 1 | Inr r \<Rightarrow> 0)"
proof -
  from assms have ta: "wrap64 (ac_TotalConversions a + 1) = ac_TotalConversions a + 1"
    by (intro wrap64_succ) simp_all
  from assms have fa: "wrap64 (ac_FailedConversions a + 1) = ac_FailedConversions a + 1"
    by (intro wrap64_succ) simp_all
  from assms have ti: "wrap64 (ic_TotalConversions i + 1) = ic_TotalConversions i + 1"
    by (intro wrap64_succ) simp_all
  from assms have fi: "wrap64 (ic_FailedConversions i + 1) = ic_FailedConversions i + 1"
    by (intro wrap64_succ) simp_all
  have af: "ac_TotalConversions (ac_recordFailure a) = ac_TotalConversions a + 1"
           "ac_FailedConversions (ac_recordFailure a) = ac_FailedConversions a + 1"
    by (simp_all add: ac_recordFailure_def ta fa)
  have as: "\<And>d. ac_TotalConversions (ac_recordSuccess d a) = ac_TotalConversions a + 1"
           "\<And>d. ac_FailedConversions (ac_recordSuccess d a) = ac_FailedConversions a"
    by (simp_all add: ac_recordSuccess_def Let_def ta)
  have "if": "ic_TotalConversions (ic_recordFailure i) = ic_TotalConversions i + 1"
           "ic_FailedConversions (ic_recordFailure i) = ic_FailedConversions i + 1"
    by (simp_all add: ic_recordFailure_def ti fi)
  have iv: "\<And>d. ic_TotalConversions (ic_recordVipsSuccess d i) = ic_TotalConversions i + 1"
           "\<And>d. ic_FailedConversions (ic_recordVipsSuccess d i) = ic_FailedConversions i"
    by (simp_all add: ic_recordVipsSuccess_def ic_updateAvgTime_def Let_def ti)
  have iff: "\<And>d. ic_TotalConversions (ic_recordFFmpegSuccess d i) = ic_TotalConversions i + 1"
            "\<And>d. ic_FailedConversions (ic_recordFFmpegSuccess d i) = ic_FailedConversions i"
    by (simp_all add: ic_recordFFmpegSuccess_def ic_updateAvgTime_def Let_def ti)
  have ac: "ac_TotalConversions (snd (ac_Convert aenv areq a)) = ac_TotalConversions a + 1"
           "ac_FailedConversions (snd (ac_Convert aenv areq a))
             = ac_FailedConversions a + (case fst (ac_Convert aenv areq a) of Inl e \<Rightarrow> 1 | Inr r \<Rightarrow> 0)"
    using ac_Convert_cases [of aenv areq a] af as by auto
  have ic: "ic_TotalConversions (snd (ic_Convert v ienv ireq i)) = ic_TotalConversions i + 1"
           "ic_FailedConversions (snd (ic_Convert v ienv ireq i))
             = ic_FailedConversions i + (case fst (ic_Convert v ienv ireq i) of Inl e \<Rightarrow> 1 | Inr r \<Rightarrow> 0)"
    using ic_Convert_cases [of v ienv ireq i] "if" iv iff by auto
  have acle: "ac_FailedConversions (snd (ac_Convert aenv areq a))
           \<le> ac_TotalConversions (snd (ac_Convert aenv areq a))"
    using ac assms(2) by (simp split: sum.split)
  have icle: "ic_FailedConversions (snd (ic_Convert v ienv ireq i))
           \<le> ic_TotalConversions (snd (ic_Convert v ienv ireq i))"
    using ic assms(5) by (simp split: sum.split)
  have asle: "ac_FailedConversions (ac_recordSuccess d a) \<le> ac_TotalConversions (ac_recordSuccess d a)"
    using as assms(2) by simp
  have ivle: "ic_FailedConversions (ic_recordVipsSuccess d i) \<le> ic_TotalConversions (ic_recordVipsSuccess d i)"
    using iv assms(5) by simp
  have iffle: "ic_FailedConversions (ic_recordFFmpegSuccess d i) \<le> ic_TotalConversions (ic_recordFFmpegSuccess d i)"
    using iff assms(5) by simp
  note cs = ac_Convert_cases [of aenv areq a] ic_Convert_cases [of v ienv ireq i]
  show ?thesis
    by (intro conjI) (fact af as "if" iv iff ac ic acle icle asle ivle iffle cs)+
qed

theorem failed_conversions_counted_in_total_witness:
  "- (2 ^ 63) \<le> ac_FailedConversions ex_audio_stats
   \<and> ac_FailedConversions ex_audio_stats \<le> ac_TotalConversions ex_audio_stats
   \<and> ac_TotalConversions ex_audio_stats < 2 ^ 63 - 1
   \<and> - (2 ^ 63) \<le> ic_FailedConversions ex_image_stats
   \<and> ic_FailedConversions ex_image_stats \<le> ic_TotalConversions ex_image_stats
   \<and> ic_TotalConversions ex_image_stats < 2 ^ 63 - 1
   \<and> ac_TotalConversions (ac_recordFailure ex_audio_stats) = 8
   \<and> ac_FailedConversions (ac_recordFailure ex_audio_stats) = 3
   \<and> ic_TotalConversions (ic_recordFailure ex_image_stats) = 8
   \<and> ic_FailedConversions (ic_recordFailure ex_image_stats) = 3
   \<and> ac_TotalConversions (ac_recordSuccess 250 ex_audio_stats) = 8
   \<and> ac_FailedConversions (ac_recordSuccess 250 ex_audio_stats) = 2
   \<and> ic_TotalConversions (ic_recordVipsSuccess 250 ex_image_stats) = 8
   \<and> ic_TotalConversions (ic_recordFFmpegSuccess 250 ex_image_stats) = 8
   \<and> ac_TotalConversions (snd (ac_Convert ex_audio_env ex_audio_request ex_audio_stats)) = 8
   \<and> ic_TotalConversions (snd (ic_Convert True ex_image_env ex_image_request ex_image_stats)) = 8
   \<and> ac_FailedConversions (snd (ac_Convert ex_audio_env ex_audio_request ex_audio_stats))
       \<le> ac_TotalConversions (snd (ac_Convert ex_audio_env ex_audio_request ex_audio_stats))
   \<and> ic_FailedConversions (snd (ic_Convert True ex_image_env ex_image_request ex_image_stats))
       \<le> ic_TotalConversions (snd (ic_Convert True ex_image_env ex_image_request ex_image_stats))"
proof -
  have h: "- (2 ^ 63) \<le> ac_FailedConversions ex_audio_stats"
          "ac_FailedConversions ex_audio_stats \<le> ac_TotalConversions ex_audio_stats"
          "ac_TotalConversions ex_audio_stats < 2 ^ 63 - 1"
          "- (2 ^ 63) \<le> ic_FailedConversions ex_image_stats"
          "ic_FailedConversions ex_image_stats \<le> ic_TotalConversions ex_image_stats"
          "ic_TotalConversions ex_image_stats < 2 ^ 63 - 1"
    by (simp_all add: ex_audio_stats_def ex_image_stats_def)
  have v: "ac_TotalConversions ex_audio_stats = 7" "ac_FailedConversions ex_audio_stats = 2"
          "ic_TotalConversions ex_image_stats = 7" "ic_FailedConversions ex_image_stats = 2"
    by (simp_all add: ex_audio_stats_def ex_image_stats_def)
  from failed_conversions_counted_in_total
         [OF h, of 250 ex_audio_env ex_audio_request True ex_image_env ex_image_request]
  show ?thesis using h v by simp
qed

section \<open>Rolling averages\<close>

text \<open>
  C5 (as amended). For non-negative durations that do not overflow 64 bits, the audio
  converter, the image converter (on both success paths) and the downloader update their
  average to \<open>(old_avg * 9 + sample) / 10\<close>, seeded with the sample when the previous
  average is zero. The S3 service does not: on a successful upload with metrics enabled,
  \<open>updateStats\<close> sets the average to \<open>(old_avg + sample) / 2\<close>, seeded in the same way.
\<close>

theorem rolling_average_updates:
  assumes "0 \<le> old" and "0 \<le> sample" and "old * 9 + sample < 2 ^ 63"
      and "ac_AvgConversionTime a = old" and "ic_AvgConversionTime i = old"
      and "dl_AvgDownloadTime dst = old" and "s3_AverageUploadTime s = old"
  shows "ac_AvgConversionTime (ac_recordSuccess sample a) = spec_rolling_avg old sample
       \<and> ic_AvgConversionTime (ic_recordVipsSuccess sample i) = spec_rolling_avg old sample
       \<and> ic_AvgConversionTime (ic_recordFFmpegSuccess sample i) = spec_rolling_avg old sample
       \<and> dl_AvgDownloadTime (dl_recordSuccess bytes sample dst) = spec_rolling_avg old sample
       \<and> s3_AverageUploadTime (s3_updateStats True now sample bytes True s) = halving_avg old sample"
proof -
  from assms(1-3) have w1: "wrap64 (old * 9) = old * 9"
    by (intro wrap64_id) simp_all
  from assms(1-3) have w2: "wrap64 (old * 9 + sample) = old * 9 + sample"
    by (intro wrap64_id) simp_all
  from assms(1-3) have w3: "wrap64 (old + sample) = old + sample"
    by (intro wrap64_id) simp_all
  from assms(1,2) have g1: "go_quot (old * 9 + sample) 10 = (old * 9 + sample) div 10"
    by (intro go_quot_nonneg) simp_all
  from assms(1,2) have g2: "go_quot (old + sample) 2 = (old + sample) div 2"
    by (intro go_quot_nonneg) simp_all
  have ac: "ac_AvgConversionTime (ac_recordSuccess sample a) = spec_rolling_avg old sample"
    using assms(4) by (simp add: ac_recordSuccess_def spec_rolling_avg_def Let_def w1 w2 g1)
  have iv: "ic_AvgConversionTime (ic_recordVipsSuccess sample i) = spec_rolling_avg old sample"
    using assms(5)
    by (simp add: ic_recordVipsSuccess_def ic_updateAvgTime_def spec_rolling_avg_def Let_def w1 w2 g1)
  have iff: "ic_AvgConversionTime (ic_recordFFmpegSuccess sample i) = spec_rolling_avg old sample"
    using assms(5)
    by (simp add: ic_recordFFmpegSuccess_def ic_updateAvgTime_def spec_rolling_avg_def Let_def w1 w2 g1)
  have dl: "dl_AvgDownloadTime (dl_recordSuccess bytes sample dst) = spec_rolling_avg old sample"
    using assms(6) by (simp add: dl_recordSuccess_def spec_rolling_avg_def Let_def w1 w2 g1)
  have s3: "s3_AverageUploadTime (s3_updateStats True now sample bytes True s) = halving_avg old sample"
    using assms(7) by (simp add: s3_updateStats_def halving_avg_def Let_def w3 g2)
  from ac iv iff dl s3 show ?thesis by simp
qed

theorem rolling_average_updates_witness:
  "(0::int) \<le> 1000 \<and> (0::int) \<le> 300 \<and> (1000::int) * 9 + 300 < 2 ^ 63
   \<and> ac_AvgConversionTime ex_audio_stats = 1000 \<and> ic_AvgConversionTime ex_image_stats = 1000
   \<and> dl_AvgDownloadTime ex_downloader_stats = 1000 \<and> s3_AverageUploadTime ex_s3_stats = 1000
   \<and> ac_AvgConversionTime (ac_recordSuccess 300 ex_audio_stats) = 930
   \<and> ic_AvgConversionTime (ic_recordVipsSuccess 300 ex_image_stats) = 930
   \<and> ic_AvgConversionTime (ic_recordFFmpegSuccess 300 ex_image_stats) = 930
   \<and> dl_AvgDownloadTime (dl_recordSuccess 512 300 ex_downloader_stats) = 930
   \<and> s3_AverageUploadTime (s3_updateStats True 77 300 512 True ex_s3_stats) = 650"
proof -
  have h: "ac_AvgConversionTime ex_audio_stats = 1000" "ic_AvgConversionTime ex_image_stats = 1000"
          "dl_AvgDownloadTime ex_downloader_stats = 1000" "s3_AverageUploadTime ex_s3_stats = 1000"
    by (simp_all add: ex_audio_stats_def ex_image_stats_def ex_downloader_stats_def ex_s3_stats_def)
  have v: "spec_rolling_avg 1000 300 = 930" "halving_avg 1000 300 = 650"
    by (simp_all add: spec_rolling_avg_def halving_avg_def)
  from rolling_average_updates [of 1000 300 ex_audio_stats ex_image_stats ex_downloader_stats
         ex_s3_stats 512 77] h v
  show ?thesis by simp
qed

text \<open>
  C5, as written, fails for the S3 service: from an average of 1000 and a sample of 300
  the service goes to 650, where the filter of the specification gives 930.
\<close>

theorem s3_average_is_not_rolling_counterexample:
  "s3_AverageUploadTime (s3_updateStats True 77 300 512 True ex_s3_stats) = 650
   \<and> spec_rolling_avg (s3_AverageUploadTime ex_s3_stats) 300 = 930"
  by (simp add: s3_updateStats_def ex_s3_stats_def spec_rolling_avg_def Let_def wrap64_def go_quot_def)

section \<open>Admission of uploads\<close>

text \<open>
  C4. \<open>StartUpload\<close> and \<open>StartBase64Upload\<close> succeed exactly when
  \<open>currentUploads < maxConcurrent\<close>, and then register a pending record and increment
  the counter; at capacity they fail with the capacity-reached error and return the
  manager unchanged: no record is created or registered and \<open>currentUploads\<close> is as
  before.
\<close>

theorem StartUpload_admission:
  "(if um_currentUploads um < um_maxConcurrent um
    then StartUpload uid now key sz opts um =
           (Inr (new_UploadInfo uid now key sz opts),
            um\<lparr>um_currentUploads := wrap64 (um_currentUploads um + 1),
               um_uploads := (um_uploads um)(uid \<mapsto> new_UploadInfo uid now key sz opts)\<rparr>)
    else StartUpload uid now key sz opts um = (Inl (CapacityReached (um_maxConcurrent um)), um))
 \<and> (if um_currentUploads um < um_maxConcurrent um
    then StartBase64Upload uid now key data opts um =
           (Inr (new_UploadInfo uid now key (int (length data)) opts),
            um\<lparr>um_currentUploads := wrap64 (um_currentUploads um + 1),
               um_uploads := (um_uploads um)(uid \<mapsto> new_UploadInfo uid now key (int (length data)) opts)\<rparr>)
    else StartBase64Upload uid now key data opts um = (Inl (CapacityReached (um_maxConcurrent um)), um))"
  by (simp add: StartUpload_def StartBase64Upload_def Let_def)

theorem StartUpload_admission_witness:
  "um_currentUploads ex_full_manager = 1 \<and> um_maxConcurrent ex_full_manager = 1
   \<and> StartUpload ''u2'' 101 ''b.png'' 10 ex_options ex_full_manager
       = (Inl (CapacityReached 1), ex_full_manager)
   \<and> StartBase64Upload ''u2'' 101 ''b.png'' ''aGVsbG8='' ex_options ex_full_manager
       = (Inl (CapacityReached 1), ex_full_manager)"
proof -
  have h: "um_currentUploads ex_full_manager = 1" "um_maxConcurrent ex_full_manager = 1"
    by (simp_all add: ex_full_manager_def StartUpload_def NewUploadManager_def Let_def wrap64_def)
  from StartUpload_admission [of ex_full_manager "''u2''" 101 "''b.png''" 10 ex_options "''aGVsbG8=''"] h
  show ?thesis by simp
qed

section \<open>The size limit of downloads\<close>

text \<open>
  The copy loop delivers the first \<open>N\<close> bytes of the body, where \<open>N\<close> is the limit of
  the reader; it reports the body's error only when the body ends before the limit; and
  it leaves the rest of the body unread.
\<close>

lemma lr_Read_limit: "lr_N l \<le> 0 \<Longrightarrow> lr_Read k l = (([], Some EOF), l)"
  by (simp add: lr_Read_def)

lemma lr_Read_empty:
  "0 < lr_N l \<Longrightarrow> k \<noteq> 0 \<Longrightarrow> bdata (lr_R l) = [] \<Longrightarrow>
   lr_Read k l = (([], Some (case berr (lr_R l) of None \<Rightarrow> EOF | Some m \<Rightarrow> ReadErr m)), l)"
  by (simp add: lr_Read_def body_Read_def Let_def)

lemma lr_Read_data:
  "0 < lr_N l \<Longrightarrow> k \<noteq> 0 \<Longrightarrow> bdata (lr_R l) \<noteq> [] \<Longrightarrow>
   lr_Read k l =
     ((take (min k (nat (lr_N l))) (bdata (lr_R l)), None),
      \<lparr>lr_R = (lr_R l)\<lparr>bdata := drop (min k (nat (lr_N l))) (bdata (lr_R l))\<rparr>,
       lr_N = lr_N l - int (min (min k (nat (lr_N l))) (length (bdata (lr_R l))))\<rparr>)"
  by (auto simp add: lr_Read_def body_Read_def Let_def min_def)

lemma take_split: "m \<le> n \<Longrightarrow> take m xs @ take (n - m) (drop m xs) = take n xs"
  using take_add [of m "n - m" xs] by simp

lemma copy_loop_spec:
  "k \<noteq> 0 \<Longrightarrow>
   fst (fst (copy_loop k l acc)) = acc @ take (nat (lr_N l)) (bdata (lr_R l))
   \<and> snd (fst (copy_loop k l acc))
       = (if int (length (bdata (lr_R l))) < lr_N l then berr (lr_R l) else None)
   \<and> bdata (lr_R (snd (copy_loop k l acc))) = drop (nat (lr_N l)) (bdata (lr_R l))"
proof (induction k l acc rule: copy_loop.induct)
  case (1 k l acc)
  note k = \<open>k \<noteq> 0\<close>
  show ?case
  proof (cases "lr_N l \<le> 0")
    case True
    with k show ?thesis
      by (subst (1 2 3) copy_loop.simps) (simp add: lr_Read_limit)
  next
    case pos: False
    show ?thesis
    proof (cases "bdata (lr_R l) = []")
      case True
      with k pos show ?thesis
        by (subst (1 2 3) copy_loop.simps) (simp add: lr_Read_empty split: option.split)
    next
      case False
      let ?m = "min k (nat (lr_N l))"
      let ?l' = "\<lparr>lr_R = (lr_R l)\<lparr>bdata := drop ?m (bdata (lr_R l))\<rparr>,
                 lr_N = lr_N l - int (min ?m (length (bdata (lr_R l))))\<rparr>"
      let ?bs = "take ?m (bdata (lr_R l))"
      from k pos False have rd: "lr_Read k l = ((?bs, None), ?l')"
        by (simp add: lr_Read_data)
      have step: "copy_loop k l acc = copy_loop k ?l' (acc @ ?bs)"
        using k by (subst copy_loop.simps) (simp add: rd)
      have IH: "fst (fst (copy_loop k ?l' (acc @ ?bs))) = (acc @ ?bs) @ take (nat (lr_N ?l')) (bdata (lr_R ?l'))
        \<and> snd (fst (copy_loop k ?l' (acc @ ?bs)))
            = (if int (length (bdata (lr_R ?l'))) < lr_N ?l' then berr (lr_R ?l') else None)
        \<and> bdata (lr_R (snd (copy_loop k ?l' (acc @ ?bs)))) = drop (nat (lr_N ?l')) (bdata (lr_R ?l'))"
        using "1.IH" [OF k rd [symmetric] refl refl k] .
      have mle: "?m \<le> nat (lr_N l)" by simp
      have t: "?bs @ take (nat (lr_N ?l')) (bdata (lr_R ?l')) = take (nat (lr_N l)) (bdata (lr_R l))"
      proof (cases "?m \<le> length (bdata (lr_R l))")
        case True
        then have "nat (lr_N ?l') = nat (lr_N l) - ?m" using pos by (simp add: min_absorb1 nat_diff_distrib')
        then show ?thesis using take_split [OF mle, of "bdata (lr_R l)"] by simp
      next
        case False
        then show ?thesis using mle by simp
      qed
      have d: "drop (nat (lr_N ?l')) (bdata (lr_R ?l')) = drop (nat (lr_N l)) (bdata (lr_R l))"
      proof (cases "?m \<le> length (bdata (lr_R l))")
        case True
        then have "nat (lr_N ?l') = nat (lr_N l) - ?m" using pos by (simp add: min_absorb1 nat_diff_distrib')
        with mle show ?thesis by simp
      next
        case False
        then show ?thesis using mle by simp
      qed
      have e: "(int (length (bdata (lr_R ?l'))) < lr_N ?l') = (int (length (bdata (lr_R l))) < lr_N l)"
        using pos mle by (auto simp: min_def)
      from IH t d e show ?thesis
        unfolding step by simp
    qed
  qed
qed

lemma NewDownloader_maxSize_pos: "0 < dl_maxSize (NewDownloader m)"
  by (simp add: NewDownloader_def)

lemma Download_maxSize: "dl_maxSize (snd (Download bufsz el f d)) = dl_maxSize d"
  by (cases "copy_loop bufsz (LimitReader (case f of Response s c b \<Rightarrow> b) (dl_maxSize d)) []")
     (auto simp add: Download_def dl_fail_def Let_def split: fetch.split option.split prod.split)

lemma Download_body:
  assumes pos: "0 < dl_maxSize d" and k: "bufsz \<noteq> 0"
      and cl: "\<not> (cl > 0 \<and> cl > dl_maxSize d)"
  shows "fst (Download bufsz el (Response 200 cl rbody) d) =
           (if int (length (bdata rbody)) < dl_maxSize d
            then (case berr rbody of Some m \<Rightarrow> Inl (ReadResponse m) | None \<Rightarrow> Inr (bdata rbody))
            else if dl_maxSize d < int (length (bdata rbody))
            then Inl (ContentExceeds (dl_maxSize d))
            else Inr (bdata rbody))"
proof -
  let ?l = "LimitReader rbody (dl_maxSize d)"
  obtain res err l' where c: "copy_loop bufsz ?l [] = ((res, err), l')"
    by (metis prod.exhaust)
  from copy_loop_spec [OF k, of ?l "[]"] c
  have res: "res = take (nat (dl_maxSize d)) (bdata rbody)"
    and err: "err = (if int (length (bdata rbody)) < dl_maxSize d then berr rbody else None)"
    and rest: "bdata (lr_R l') = drop (nat (dl_maxSize d)) (bdata rbody)"
    by (simp_all add: LimitReader_def)
  have tst: "(fst (fst (body_Read (Suc 0) (lr_R l'))) \<noteq> []) = (dl_maxSize d < int (length (bdata rbody)))"
    using pos by (auto simp add: body_Read_def rest)
  have len: "(dl_maxSize d \<le> int (length res)) = (dl_maxSize d \<le> int (length (bdata rbody)))"
    using pos by (auto simp add: res min_def)
  show ?thesis
    using k cl pos
    by (auto simp add: Download_def c err tst len dl_fail_def Let_def res split: option.split)
qed

text \<open>
  C7 (as amended). A download that returns successfully returns at most \<open>maxSize\<close>
  bytes. A response whose body holds more than \<open>maxSize\<close> bytes never yields data: the
  call fails with "content exceeds maximum size" when the body is read, that is when the
  status is 200 and the advertised \<open>Content-Length\<close> does not exceed \<open>maxSize\<close>; the
  earlier checks fail first with their own errors, "http status" for another status and
  "content too large" for an advertised length above \<open>maxSize\<close> (and an empty copy
  buffer makes \<open>io.CopyBuffer\<close> panic). \<open>NewDownloader\<close> makes \<open>maxSize\<close> positive.
\<close>

theorem Download_size_limit:
  assumes "0 < dl_maxSize d"
  shows "(\<forall>bs. fst (Download bufsz el f d) = Inr bs \<longrightarrow> int (length bs) \<le> dl_maxSize d)
       \<and> (dl_maxSize d < int (length (bdata rbody)) \<longrightarrow>
            fst (Download bufsz el (Response status cl rbody) d) =
              Inl (if status \<noteq> 200 then HttpStatus status
                   else if cl > 0 \<and> cl > dl_maxSize d then ContentTooLarge cl (dl_maxSize d)
                   else if bufsz = 0 then CopyBufferPanics
                   else ContentExceeds (dl_maxSize d)))"
proof -
  have early: "\<And>s c b. s \<noteq> 200 \<or> (c > 0 \<and> c > dl_maxSize d) \<or> bufsz = 0 \<Longrightarrow>
      fst (Download bufsz el (Response s c b) d) =
        Inl (if s \<noteq> 200 then HttpStatus s
             else if c > 0 \<and> c > dl_maxSize d then ContentTooLarge c (dl_maxSize d)
             else CopyBufferPanics)"
    by (auto simp add: Download_def dl_fail_def)
  have a: "\<forall>bs. fst (Download bufsz el f d) = Inr bs \<longrightarrow> int (length bs) \<le> dl_maxSize d"
  proof (cases f)
    case (NewRequestFails m)
    then show ?thesis by (simp add: Download_def dl_fail_def)
  next
    case (DoFails m)
    then show ?thesis by (simp add: Download_def dl_fail_def)
  next
    case (Response s c b)
    show ?thesis
    proof (cases "s \<noteq> 200 \<or> (c > 0 \<and> c > dl_maxSize d) \<or> bufsz = 0")
      case True
      from early [OF True] Response show ?thesis by simp
    next
      case False
      then have "fst (Download bufsz el (Response 200 c b) d) =
           (if int (length (bdata b)) < dl_maxSize d
            then (case berr b of Some m \<Rightarrow> Inl (ReadResponse m) | None \<Rightarrow> Inr (bdata b))
            else if dl_maxSize d < int (length (bdata b))
            then Inl (ContentExceeds (dl_maxSize d))
            else Inr (bdata b))"
        using Download_body [OF assms, of bufsz c el b] by simp
      with False Response show ?thesis
        by (auto split: if_splits option.splits)
    qed
  qed
  have b: "dl_maxSize d < int (length (bdata rbody)) \<longrightarrow>
            fst (Download bufsz el (Response status cl rbody) d) =
              Inl (if status \<noteq> 200 then HttpStatus status
                   else if cl > 0 \<and> cl > dl_maxSize d then ContentTooLarge cl (dl_maxSize d)
                   else if bufsz = 0 then CopyBufferPanics
                   else ContentExceeds (dl_maxSize d))"
  proof (cases "status \<noteq> 200 \<or> (cl > 0 \<and> cl > dl_maxSize d) \<or> bufsz = 0")
    case True
    from early [OF True] True show ?thesis by auto
  next
    case False
    then show ?thesis
      using Download_body [OF assms, of bufsz cl el rbody] by auto
  qed
  from a b show ?thesis by simp
qed

theorem Download_size_limit_witness:
  "0 < dl_maxSize (NewDownloader 10)
   \<and> dl_maxSize (NewDownloader 10) < int (length (bdata ex_body))
   \<and> fst (Download 4 250 (Response 200 (- 1) ex_body) (NewDownloader 10)) = Inl (ContentExceeds 10)"
proof -
  have h: "0 < dl_maxSize (NewDownloader 10)" "dl_maxSize (NewDownloader 10) = 10"
    by (simp_all add: NewDownloader_def)
  have g: "dl_maxSize (NewDownloader 10) < int (length (bdata ex_body))"
    by (simp add: NewDownloader_def ex_body_def)
  from Download_size_limit [OF h(1), of 4 250 _ ex_body 200 "- 1"] g h(2)
  show ?thesis using h(1) by simp
qed

text \<open>
  C7, as written, names one error for every oversized body. A body of 11 bytes with
  \<open>Content-Length: 11\<close> and a limit of 10 fails with "content too large" instead.
\<close>

theorem Download_content_too_large_counterexample:
  "dl_maxSize (NewDownloader 10) < int (length (bdata ex_body))
   \<and> fst (Download 4 250 (Response 200 11 ex_body) (NewDownloader 10)) = Inl (ContentTooLarge 11 10)"
  by (simp add: Download_def dl_fail_def NewDownloader_def ex_body_def)

section \<open>Retries of the MinIO provider\<close>

lemma minio_put_loop_unseekable:
  assumes "\<not> me_isSeekable env" and "me_PutObject env 0 = Inl e0"
      and "IsRetryableError (Some e0)" and "0 \<le> rc"
  shows "minio_put_loop env rc key 0 info =
           (1, Inl (S3Error ''minio'' ''upload'' key 0
                      (if rc = 0 then e0
                       else case me_ctxDone env 0 of
                              Some ctxErr \<Rightarrow> ctxErr
                            | None \<Rightarrow> ErrorNew ''reader is not seekable; cannot retry upload'')))"
proof (cases "rc = 0")
  case True
  with assms show ?thesis
    by (subst minio_put_loop.simps) (simp add: minio_reset_reader_def)
next
  case False
  with assms(4) have rc: "1 \<le> rc" by simp
  have second: "minio_put_loop env rc key (Suc 0) zero_put_info =
      (0, Inl (S3Error ''minio'' ''upload'' key 0
                 (ErrorNew ''reader is not seekable; cannot retry upload'')))"
    using rc assms(1) by (subst minio_put_loop.simps) (simp add: minio_reset_reader_def)
  from False assms rc show ?thesis
    by (subst minio_put_loop.simps)
       (simp add: minio_reset_reader_def second split: option.split)
qed

lemma ex_503_retryable: "IsRetryableError (Some ex_503)"
  by (simp add: IsRetryableError_def ex_503_def)

text \<open>
  C6 (as amended). Let the reader of a call of \<open>MinIOProvider.Upload\<close> not be
  seekable and let the first attempt fail with a retryable error. Then \<open>PutObject\<close> is
  called exactly once and the call returns an error with a nil result. The error wraps
  the first attempt's error only on the multipart path and when \<open>RetryCount\<close> is zero;
  otherwise it is the context's error when the context ends during the back-off, and
  else the error "reader is not seekable; cannot retry upload".
\<close>

theorem minio_Upload_unseekable_no_retry:
  assumes "\<not> me_isSeekable env" and "me_PutObject env 0 = Inl e0"
      and "IsRetryableError (Some e0)" and "0 \<le> cfg_RetryCount c"
  shows "minio_Upload env c key sz opts =
           (1, (None,
                Some (if sz \<ge> cfg_MultipartThreshold c
                      then S3Error ''minio'' ''multipart_upload'' key 0 e0
                      else S3Error ''minio'' ''upload'' key 0
                             (if cfg_RetryCount c = 0 then e0
                              else case me_ctxDone env 0 of
                                     Some ctxErr \<Rightarrow> ctxErr
                                   | None \<Rightarrow> ErrorNew ''reader is not seekable; cannot retry upload''))))"
  using assms(2) minio_put_loop_unseekable [OF assms, of key zero_put_info]
  by (simp add: minio_Upload_def minio_MultipartUpload_def)

theorem minio_Upload_unseekable_no_retry_witness:
  "\<not> me_isSeekable ex_minio_env \<and> me_PutObject ex_minio_env 0 = Inl ex_503
   \<and> IsRetryableError (Some ex_503) \<and> 0 \<le> cfg_RetryCount ex_config
   \<and> fst (minio_Upload ex_minio_env ex_config ''a.png'' 2048 ex_options) = 1
   \<and> fst (snd (minio_Upload ex_minio_env ex_config ''a.png'' 2048 ex_options)) = None"
proof -
  have h: "\<not> me_isSeekable ex_minio_env" "me_PutObject ex_minio_env 0 = Inl ex_503"
          "IsRetryableError (Some ex_503)" "0 \<le> cfg_RetryCount ex_config"
    by (simp_all add: ex_minio_env_def ex_config_def ex_503_retryable)
  from minio_Upload_unseekable_no_retry [OF h, of "''a.png''" 2048 ex_options] h
  show ?thesis by simp
qed

text \<open>
  C6, as written, lets the first attempt's error surface. With the default
  \<open>RetryCount\<close> of 3, a forward-only reader and a first attempt that fails with a
  retryable error, the call returns "reader is not seekable; cannot retry upload", and the error of
  the first attempt is not on its \<open>Unwrap\<close> chain.
\<close>

theorem minio_Upload_first_error_lost_counterexample:
  "\<not> me_isSeekable ex_minio_env \<and> me_PutObject ex_minio_env 0 = Inl ex_503
   \<and> IsRetryableError (Some ex_503)
   \<and> minio_Upload ex_minio_env ex_config ''a.png'' 2048 ex_options =
       (1, (None, Some (S3Error ''minio'' ''upload'' ''a.png'' 0
                          (ErrorNew ''reader is not seekable; cannot retry upload''))))
   \<and> errors_Is (S3Error ''minio'' ''upload'' ''a.png'' 0
                  (ErrorNew ''reader is not seekable; cannot retry upload'')) ex_503 = False"
proof -
  have h: "\<not> me_isSeekable ex_minio_env" "me_PutObject ex_minio_env 0 = Inl ex_503"
          "IsRetryableError (Some ex_503)" "0 \<le> (3::int)"
    by (simp_all add: ex_minio_env_def ex_503_retryable)
  have c: "cfg_RetryCount ex_config = 3" "cfg_MultipartThreshold ex_config = 5242880"
    by (simp_all add: ex_config_def)
  have d: "me_ctxDone ex_minio_env 0 = None" by (simp add: ex_minio_env_def)
  have u: "minio_Upload ex_minio_env ex_config ''a.png'' 2048 ex_options =
       (1, (None, Some (S3Error ''minio'' ''upload'' ''a.png'' 0
                          (ErrorNew ''reader is not seekable; cannot retry upload''))))"
    using minio_put_loop_unseekable [OF h, of "''a.png''" zero_put_info]
    by (simp add: minio_Upload_def c d)
  have e: "errors_Is (S3Error ''minio'' ''upload'' ''a.png'' 0
                  (ErrorNew ''reader is not seekable; cannot retry upload'')) ex_503 = False"
    by (simp add: ex_503_def)
  from h u e show ?thesis by simp
qed

section \<open>S3Service.UploadBase64 on a provider error\<close>

text \<open>
  Every error return of the MinIO provider carries a nil result, and the service
  dereferences the result before it looks at the error.
\<close>

lemma minio_Upload_nil_result:
  "(fst (snd (minio_Upload env c key sz opts)) = None) = (snd (snd (minio_Upload env c key sz opts)) \<noteq> None)"
  by (simp add: minio_Upload_def minio_MultipartUpload_def split: sum.split prod.split)

lemma minio_UploadBase64_nil_result:
  "(fst (snd (minio_UploadBase64 env c key data opts)) = None)
   = (snd (snd (minio_UploadBase64 env c key data opts)) \<noteq> None)"
  by (simp add: minio_UploadBase64_def Let_def minio_Upload_nil_result split: option.split)

lemma S3Service_UploadBase64_nil_result_panics:
  assumes "svc_enabled s" and "svc_provider s = Some p"
      and "\<And>opts'. fst (p_UploadBase64 p key data opts') = None"
  shows "S3Service_UploadBase64 now uploadTime key data opts s =
           Panics ''invalid memory address or nil pointer dereference''"
  using assms by (simp add: S3Service_UploadBase64_def Let_def)

lemma S3Service_UploadBase64_minio_error_panics:
  assumes "svc_enabled s" and "svc_provider s = Some (minio_provider env c)"
      and "\<And>opts'. snd (snd (minio_UploadBase64 env c key data opts')) \<noteq> None"
  shows "S3Service_UploadBase64 now uploadTime key data opts s =
           Panics ''invalid memory address or nil pointer dereference''"
proof (rule S3Service_UploadBase64_nil_result_panics [OF assms(1,2)])
  fix opts'
  from assms(3) [of opts'] show "fst (p_UploadBase64 (minio_provider env c) key data opts') = None"
    by (simp add: minio_provider_def minio_UploadBase64_nil_result)
qed

lemma ex_parse_error:
  "minio_UploadBase64 env c ''a.png'' ''data:image/png;base64'' opts' =
     (0, (None, Some (S3Error ''minio'' ''parse_base64'' ''a.png'' 0 ErrInvalidBase64)))"
  by (simp add: minio_UploadBase64_def HasPrefix_def Let_def)

text \<open>
  C9. The claim asks that \<open>S3Service.UploadBase64\<close> return the provider's error. It
  does not: for a data URL without a comma the provider returns a nil result with
  \<open>ErrInvalidBase64\<close>, and the service panics on \<open>result.Size\<close>.
\<close>

theorem S3Service_UploadBase64_panics_on_provider_error:
  "snd (minio_UploadBase64 ex_minio_env ex_config ''a.png'' ''data:image/png;base64'' ex_options)
     = (None, Some (S3Error ''minio'' ''parse_base64'' ''a.png'' 0 ErrInvalidBase64))
   \<and> S3Service_UploadBase64 77 250 ''a.png'' ''data:image/png;base64'' ex_options ex_service
     = Panics ''invalid memory address or nil pointer dereference''"
proof -
  have e: "svc_enabled ex_service" "svc_provider ex_service = Some (minio_provider ex_minio_env ex_config)"
    by (simp_all add: ex_service_def)
  have "S3Service_UploadBase64 77 250 ''a.png'' ''data:image/png;base64'' ex_options ex_service
     = Panics ''invalid memory address or nil pointer dereference''"
    by (rule S3Service_UploadBase64_minio_error_panics [OF e]) (simp add: ex_parse_error)
  then show ?thesis by (simp add: ex_parse_error)
qed

section \<open>Cancellation and the worker\<close>

text \<open>
  What the worker and \<open>CancelUpload\<close> do to any record, whatever its status: the
  second critical section of the worker writes \<open>failed\<close> or \<open>completed\<close>, the
  deferred function decrements the counter, and \<open>CancelUpload\<close> is refused only on
  \<open>completed\<close> and \<open>failed\<close>.
\<close>

lemma performUpload_finish_status:
  "um_uploads um uploadID = Some uploadInfo \<Longrightarrow>
   status_of uploadID (performUpload_finish uploadID res now um) =
     Some (case res of Inl err \<Rightarrow> UploadStatusFailed | Inr result \<Rightarrow> UploadStatusCompleted)"
  by (simp add: performUpload_finish_def on_record_def status_of_def Let_def split: sum.split)

lemma performBase64Upload_finish_status:
  "um_uploads um uploadID = Some uploadInfo \<Longrightarrow>
   status_of uploadID (performBase64Upload_finish uploadID res now um) =
     Some (case res of Inl err \<Rightarrow> UploadStatusFailed | Inr result \<Rightarrow> UploadStatusCompleted)"
  by (simp add: performBase64Upload_finish_def on_record_def status_of_def Let_def split: sum.split)

lemma on_record_counter: "um_currentUploads (on_record uploadID f um) = um_currentUploads um"
  by (simp add: on_record_def split: option.split)

lemma performUpload_counter:
  "um_currentUploads (performUpload uploadID res now um) = wrap64 (um_currentUploads um - 1)"
  "um_currentUploads (performBase64Upload uploadID res now um) = wrap64 (um_currentUploads um - 1)"
  by (simp_all add: performUpload_def performBase64Upload_def worker_exit_def
        performUpload_finish_def performUpload_begin_def performBase64Upload_finish_def
        performBase64Upload_begin_def on_record_counter)

lemma CancelUpload_accepted:
  "um_uploads um uploadID = Some uploadInfo \<Longrightarrow>
   ui_Status uploadInfo \<noteq> UploadStatusCompleted \<Longrightarrow>
   ui_Status uploadInfo \<noteq> UploadStatusFailed \<Longrightarrow>
   fst (CancelUpload uploadID now um) = None
   \<and> um_currentUploads (snd (CancelUpload uploadID now um)) = wrap64 (um_currentUploads um - 1)
   \<and> status_of uploadID (snd (CancelUpload uploadID now um)) = Some UploadStatusCancelled"
  by (simp add: CancelUpload_def status_of_def Let_def)

lemma cancel_then_worker_counter:
  assumes "um_uploads um uploadID = Some uploadInfo"
      and "ui_Status uploadInfo \<noteq> UploadStatusCompleted"
      and "ui_Status uploadInfo \<noteq> UploadStatusFailed"
  shows "um_currentUploads (performUpload uploadID res now' (snd (CancelUpload uploadID now um)))
           = wrap64 (wrap64 (um_currentUploads um - 1) - 1)"
    and "um_currentUploads (performBase64Upload uploadID res now' (snd (CancelUpload uploadID now um)))
           = wrap64 (wrap64 (um_currentUploads um - 1) - 1)"
  using CancelUpload_accepted [OF assms, of now] by (simp_all add: performUpload_counter)

lemma CancelUpload_refused:
  "um_uploads um uploadID = Some uploadInfo \<Longrightarrow>
   ui_Status uploadInfo = UploadStatusCompleted \<or> ui_Status uploadInfo = UploadStatusFailed \<Longrightarrow>
   CancelUpload uploadID now um = (Some (CannotCancel (ui_Status uploadInfo)), um)"
  by (auto simp add: CancelUpload_def)

lemma ex_full_manager_eval:
  "um_currentUploads ex_full_manager = 1" "um_maxConcurrent ex_full_manager = 1"
  "um_uploads ex_full_manager ''u1'' = Some (new_UploadInfo ''u1'' 100 ''a.png'' 2048 ex_options)"
  by (simp_all add: ex_full_manager_def StartUpload_def NewUploadManager_def Let_def wrap64_def)

lemma ex_cancelled_eval:
  "fst (CancelUpload ''u1'' 200 ex_full_manager) = None"
  "um_currentUploads ex_cancelled = 0" "um_maxConcurrent ex_cancelled = 1"
  "um_uploads ex_cancelled ''u1'' =
     Some ((new_UploadInfo ''u1'' 100 ''a.png'' 2048 ex_options)
             \<lparr>ui_ctxCancelled := True, ui_Status := UploadStatusCancelled, ui_EndTime := Some 200\<rparr>)"
  by (simp_all add: ex_cancelled_def CancelUpload_def ex_full_manager_eval new_UploadInfo_def
        Let_def wrap64_def)

text \<open>
  C1. The claim asks for one decrement of \<open>currentUploads\<close> per admitted upload. The
  code decrements twice when an upload is cancelled: once in \<open>CancelUpload\<close> and once
  more in the deferred function of the worker. With \<open>maxConcurrent = 1\<close>, one upload
  started, cancelled and then finished by its worker leaves the counter at \<open>-1\<close>, after
  which two further uploads are admitted together.
\<close>

theorem counter_decremented_twice_after_cancel:
  "um_currentUploads (NewUploadManager 1) = 0
   \<and> um_currentUploads ex_full_manager = 1
   \<and> fst (CancelUpload ''u1'' 200 ex_full_manager) = None
   \<and> um_currentUploads ex_cancelled = 0
   \<and> um_currentUploads ex_worker_done = - 1
   \<and> um_maxConcurrent ex_worker_done = 1
   \<and> um_currentUploads (snd (StartUpload ''u3'' 500 ''c.png'' 10 ex_options
                            (snd (StartUpload ''u2'' 400 ''b.png'' 10 ex_options ex_worker_done)))) = 1
   \<and> map (\<lambda>u. status_of u (snd (StartUpload ''u3'' 500 ''c.png'' 10 ex_options
                            (snd (StartUpload ''u2'' 400 ''b.png'' 10 ex_options ex_worker_done)))))
         [''u2'', ''u3''] = [Some UploadStatusPending, Some UploadStatusPending]"
  by (simp add: ex_worker_done_def performUpload_def worker_exit_def performUpload_finish_def
        performUpload_begin_def on_record_def ex_cancelled_eval ex_full_manager_eval
        NewUploadManager_def StartUpload_def status_of_def new_UploadInfo_def Let_def wrap64_def)

text \<open>
  C2. The claim asks that a record moved to \<open>cancelled\<close> keep that status. The code
  overwrites it: the second critical section of either worker sets \<open>failed\<close> or
  \<open>completed\<close> without looking at the status, and the first one sets \<open>uploading\<close>.
\<close>

theorem worker_overwrites_cancelled_status:
  "status_of ''u1'' ex_cancelled_in_flight = Some UploadStatusCancelled
   \<and> status_of ''u1'' (performUpload_finish ''u1'' (Inl ex_ctx_error) 300 ex_cancelled_in_flight)
       = Some UploadStatusFailed
   \<and> status_of ''u1'' (performUpload_finish ''u1'' (Inr ex_result) 300 ex_cancelled_in_flight)
       = Some UploadStatusCompleted
   \<and> status_of ''u1'' (performBase64Upload_finish ''u1'' (Inl ex_ctx_error) 300 ex_cancelled_in_flight)
       = Some UploadStatusFailed
   \<and> status_of ''u1'' (performBase64Upload_finish ''u1'' (Inr ex_result) 300 ex_cancelled_in_flight)
       = Some UploadStatusCompleted
   \<and> status_of ''u1'' ex_cancelled = Some UploadStatusCancelled
   \<and> status_of ''u1'' (performUpload_begin ''u1'' ex_cancelled) = Some UploadStatusUploading"
  by (simp add: ex_cancelled_in_flight_def performUpload_finish_def performBase64Upload_finish_def
        performUpload_begin_def on_record_def CancelUpload_def ex_cancelled_eval ex_full_manager_eval
        status_of_def new_UploadInfo_def Let_def)

text \<open>
  C3. The claim asks that a second \<open>Cancel\<close> be refused without any change of state.
  In the code the guard of \<open>CancelUpload\<close> names \<open>completed\<close> and \<open>failed\<close> only:
  the second call on the cancelled record succeeds again, moves its end time and
  decrements \<open>currentUploads\<close> once more.
\<close>

theorem second_cancel_succeeds_and_decrements:
  "status_of ''u1'' ex_full_manager = Some UploadStatusPending
   \<and> fst (CancelUpload ''u1'' 200 ex_full_manager) = None
   \<and> status_of ''u1'' ex_cancelled = Some UploadStatusCancelled
   \<and> um_currentUploads ex_cancelled = 0
   \<and> fst (CancelUpload ''u1'' 250 ex_cancelled) = None
   \<and> um_currentUploads (snd (CancelUpload ''u1'' 250 ex_cancelled)) = - 1
   \<and> map_option ui_EndTime (um_uploads ex_cancelled ''u1'') = Some (Some 200)
   \<and> map_option ui_EndTime (um_uploads (snd (CancelUpload ''u1'' 250 ex_cancelled)) ''u1'')
       = Some (Some 250)"
  by (simp add: CancelUpload_def ex_cancelled_eval ex_full_manager_eval status_of_def
        new_UploadInfo_def Let_def wrap64_def)

end
